theory Spec2Isabelle
  imports Complex_Main "HOL-Library.Word"
begin

unbundle bit_operations_syntax

section \<open>MiniNewton: a shallow embedding of the simulation kernel\<close>

text \<open>
  The repository holds several variants of one small 2D physics engine. The variant
  embedded in full is \<^verbatim>\<open>MiniNewton_Enhanced.jsx\<close> (the objects \<^verbatim>\<open>Physics\<close>,
  \<^verbatim>\<open>Joints\<close> and \<^verbatim>\<open>MiniNewton\<close>); single functions of \<^verbatim>\<open>MiniNewton_Final.jsx\<close>
  and of the modular variant (\<^verbatim>\<open>physics.js\<close>, the joints module, the main module) are
  embedded where a property refers to them, with the suffixes \<open>_final\<close> and \<open>_modular\<close>.

  Numbers. A JavaScript number is modelled as a \<^typ>\<open>real\<close>: the embedding follows the
  control flow and the algebra of the code and does not model the rounding of IEEE doubles.
  Where the code can divide by zero the division is written as \<open>js_div\<close>, which returns
  \<open>None\<close> for the non-finite result (\<^verbatim>\<open>NaN\<close>, \<^verbatim>\<open>Infinity\<close>) that JavaScript produces.

  Impure inputs. \<^verbatim>\<open>Math.random()\<close> and \<^verbatim>\<open>Date.now()\<close> read a \<open>world\<close>: two
  infinite streams with the number of values consumed so far.

  Object references. A joint refers to two body objects; the model keeps the bodies in a
  list (the array \<^verbatim>\<open>MiniNewton.bodies\<close>) and a joint holds the index of each body, or
  \<open>None\<close> for the reference \<^verbatim>\<open>undefined\<close>.
\<close>

subsection \<open>Numbers, vectors, impure inputs\<close>

type_synonym vec = "real \<times> real"

definition js_div :: "real \<Rightarrow> real \<Rightarrow> real option" where
  "js_div a b = (if b = 0 then None else Some (a / b))"

text \<open>\<^verbatim>\<open>x || d\<close> on an optional number: \<^verbatim>\<open>undefined\<close> and \<^verbatim>\<open>0\<close> are falsy.\<close>

definition js_or :: "real option \<Rightarrow> real \<Rightarrow> real" where
  "js_or x d = (case x of None \<Rightarrow> d | Some v \<Rightarrow> if v = 0 then d else v)"

record world =
  randoms :: "nat \<Rightarrow> real"
  rnd_used :: nat
  clock :: "nat \<Rightarrow> real"
  now_used :: nat

definition Math_random :: "world \<Rightarrow> real \<times> world" where
  "Math_random w = (randoms w (rnd_used w), w\<lparr>rnd_used := Suc (rnd_used w)\<rparr>)"

definition Date_now :: "world \<Rightarrow> real \<times> world" where
  "Date_now w = (clock w (now_used w), w\<lparr>now_used := Suc (now_used w)\<rparr>)"

subsection \<open>Utils\<close>

definition distance :: "real \<Rightarrow> real \<Rightarrow> real \<Rightarrow> real \<Rightarrow> real" where
  "distance x1 y1 x2 y2 = (let dx = x2 - x1; dy = y2 - y1 in sqrt (dx * dx + dy * dy))"

definition pixelsToMeters :: "real \<Rightarrow> real" where
  "pixelsToMeters pixels = pixels / 100"

subsection \<open>Data model of the Enhanced variant\<close>

datatype body_type = Dynamic | Static | Kinematic

datatype joint_type = Distance | Pivot | Weld | Spring | OtherJoint

record settings =
  gravity :: real
  gravityVector :: vec
  bounce :: real
  floorY :: real
  duration :: real
  frameRate :: real
  damping :: real
  sfriction :: real
  material :: string
  enableInterBodyCollision :: bool
  enableSleeping :: bool
  collisionTolerance :: real
  timeScale :: real

record material_props =
  m_density :: real
  m_restitution :: real
  m_friction :: real

record contact =
  c_time :: real
  c_floor :: bool
  c_other :: "real option"
  c_position :: vec
  c_impulse :: real

text \<open>
  A body, with the fields of \<^verbatim>\<open>Physics.createBody\<close> that the simulation reads or writes.
  Left out: \<^verbatim>\<open>layer\<close>, \<^verbatim>\<open>color\<close>, \<^verbatim>\<open>hidden\<close>, \<^verbatim>\<open>material\<close>, \<^verbatim>\<open>density\<close>, and the
  \<^verbatim>\<open>original...\<close>/\<^verbatim>\<open>initial...\<close> copies, which no step of the simulation uses.
\<close>

record body =
  bid :: real
  btype :: body_type
  position :: vec
  velocity :: vec
  acceleration :: vec
  rotation :: real
  angularVelocity :: real
  angularAcceleration :: real
  mass :: real
  width :: real
  height :: real
  restitution :: real
  friction :: real
  isGrounded :: bool
  isSleeping :: bool
  sleepTimer :: real
  fixedRotation :: bool
  gravityScale :: real
  linearDamping :: real
  angularDamping :: real
  collisionGroup :: "32 word"
  collidesWith :: "32 word"
  contacts :: "contact list"
  contactCount :: nat

record layer =
  l_width :: real
  l_height :: real
  l_position :: vec
  l_rotation :: real
  l_scale :: vec

subsection \<open>Physics (Enhanced)\<close>

definition materials :: "string \<Rightarrow> material_props option" where
  "materials name =
    (if name = ''rubber'' then Some \<lparr>m_density = 9/10, m_restitution = 9/10, m_friction = 7/10\<rparr>
     else if name = ''metal'' then Some \<lparr>m_density = 78/10, m_restitution = 3/10, m_friction = 1/10\<rparr>
     else if name = ''wood'' then Some \<lparr>m_density = 6/10, m_restitution = 5/10, m_friction = 8/10\<rparr>
     else if name = ''ice'' then Some \<lparr>m_density = 92/100, m_restitution = 1/10, m_friction = 2/100\<rparr>
     else if name = ''concrete'' then Some \<lparr>m_density = 24/10, m_restitution = 2/10, m_friction = 9/10\<rparr>
     else if name = ''glass'' then Some \<lparr>m_density = 25/10, m_restitution = 1/10, m_friction = 4/10\<rparr>
     else if name = ''default'' then Some \<lparr>m_density = 1, m_restitution = 8/10, m_friction = 3/10\<rparr>
     else None)"

text \<open>\<^verbatim>\<open>this.materials[settings.material] || this.materials['default']\<close>, for any table.\<close>

definition materialProps :: "(string \<Rightarrow> material_props option) \<Rightarrow> settings \<Rightarrow> material_props" where
  "materialProps table st =
    (case table (material st) of
       Some p \<Rightarrow> p
     | None \<Rightarrow> (case table ''default'' of Some p \<Rightarrow> p
               | None \<Rightarrow> \<lparr>m_density = 1, m_restitution = 8/10, m_friction = 3/10\<rparr>))"

text \<open>
  \<^verbatim>\<open>Physics.createBody(layer, settings, bodyType)\<close>. The settings object always carries
  \<^verbatim>\<open>bounce\<close> and \<^verbatim>\<open>friction\<close>, so the body takes them from there. The id is
  \<^verbatim>\<open>Date.now() + Math.random()\<close>.
\<close>

definition createBody ::
  "(string \<Rightarrow> material_props option) \<Rightarrow> layer \<Rightarrow> settings \<Rightarrow> body_type option \<Rightarrow> world \<Rightarrow> body \<times> world" where
  "createBody table l st bodyType w =
    (let w' = l_width l * fst (l_scale l) / 100;
         h' = l_height l * snd (l_scale l) / 100;
         area = pixelsToMeters w' * pixelsToMeters h';
         props = materialProps table st;
         baseMass = max (area * m_density props) (1/10);
         (t, w1) = Date_now w;
         (r, w2) = Math_random w1
     in (\<lparr>bid = t + r,
          btype = (case bodyType of None \<Rightarrow> Dynamic | Some k \<Rightarrow> k),
          position = l_position l,
          velocity = (0, 0),
          acceleration = (0, 0),
          rotation = l_rotation l,
          angularVelocity = 0,
          angularAcceleration = 0,
          mass = baseMass,
          width = w',
          height = h',
          restitution = bounce st,
          friction = sfriction st,
          isGrounded = False,
          isSleeping = False,
          sleepTimer = 0,
          fixedRotation = False,
          gravityScale = 1,
          linearDamping = 1/100,
          angularDamping = 5/100,
          collisionGroup = 1,
          collidesWith = 31,
          contacts = [],
          contactCount = 0\<rparr>, w2))"

definition applyGravity :: "body \<Rightarrow> vec \<Rightarrow> real \<Rightarrow> body" where
  "applyGravity b g deltaTime =
    (if btype b \<noteq> Dynamic then b
     else if isGrounded b \<and> snd g > 0 then b
     else if gravityScale b = 0 then b
     else b\<lparr>acceleration :=
            (fst (acceleration b) + fst g * gravityScale b,
             snd (acceleration b) + snd g * gravityScale b)\<rparr>)"

definition applyDamping :: "body \<Rightarrow> real \<Rightarrow> body" where
  "applyDamping b globalDamping =
    (if btype b \<noteq> Dynamic then b
     else let totalLinearDamping = globalDamping * (1 - linearDamping b);
              totalAngularDamping = globalDamping * (1 - angularDamping b)
          in b\<lparr>velocity := (fst (velocity b) * totalLinearDamping,
                            snd (velocity b) * totalLinearDamping),
                angularVelocity := angularVelocity b * totalAngularDamping\<rparr>)"

definition updatePosition :: "body \<Rightarrow> real \<Rightarrow> body" where
  "updatePosition b deltaTime =
    (if btype b = Static then b
     else if isSleeping b then b
     else let v = (fst (velocity b) + fst (acceleration b) * deltaTime,
                   snd (velocity b) + snd (acceleration b) * deltaTime);
              av = angularVelocity b + angularAcceleration b * deltaTime;
              p = (fst (position b) + fst v * deltaTime,
                   snd (position b) + snd v * deltaTime);
              rot = (if \<not> fixedRotation b then rotation b + av * deltaTime else rotation b)
          in b\<lparr>velocity := v, angularVelocity := av, position := p, rotation := rot,
                acceleration := (0, 0), angularAcceleration := 0\<rparr>)"

text \<open>\<^verbatim>\<open>settings.collisionTolerance || 1.0\<close>\<close>

definition tolerance :: "settings \<Rightarrow> real" where
  "tolerance st = (if collisionTolerance st = 0 then 1 else collisionTolerance st)"

text \<open>
  The block of \<^verbatim>\<open>checkFloorCollision\<close> under \<^verbatim>\<open>if (body.velocity[1] > 0)\<close>: reflection,
  contact record, random spin, grounding.
\<close>

definition floorResponse :: "body \<Rightarrow> real \<Rightarrow> world \<Rightarrow> body \<times> world" where
  "floorResponse b globalBounce w =
    (let bounceForce = restitution b * globalBounce;
         vy = - snd (velocity b) * bounceForce;
         (t, w1) = Date_now w;
         b1 = b\<lparr>velocity := (fst (velocity b), vy),
                contacts := contacts b @
                  [\<lparr>c_time = t, c_floor = True, c_other = None,
                    c_position = position b, c_impulse = \<bar>vy\<bar>\<rparr>],
                contactCount := Suc (contactCount b)\<rparr>;
         impactStrength = \<bar>vy\<bar>;
         (b2, w2) = (if \<not> fixedRotation b1
                     then (let (r, w') = Math_random w1
                           in (b1\<lparr>angularVelocity :=
                                     angularVelocity b1 + (r - 1/2) * impactStrength * (1/10)\<rparr>, w'))
                     else (b1, w1));
         b3 = (if \<bar>snd (velocity b2)\<bar> < 5
               then b2\<lparr>velocity := (fst (velocity b2), 0), isGrounded := True\<rparr>
               else b2)
     in (b3, w2))"

definition groundFriction :: "body \<Rightarrow> body" where
  "groundFriction b =
    (if isGrounded b
     then (let frictionForce = friction b * (8/10);
               b1 = b\<lparr>velocity := (fst (velocity b) * (1 - frictionForce), snd (velocity b))\<rparr>
           in if \<not> fixedRotation b1
              then b1\<lparr>angularVelocity := angularVelocity b1 * (9/10)\<rparr>
              else b1)
     else b)"

definition checkFloorCollision :: "body \<Rightarrow> real \<Rightarrow> real \<Rightarrow> settings \<Rightarrow> world \<Rightarrow> body \<times> world" where
  "checkFloorCollision b floorY' globalBounce st w =
    (if btype b = Static then (b, w)
     else let bodyBottom = snd (position b) + height b / 2
          in if bodyBottom \<ge> floorY' - tolerance st
             then (let b1 = b\<lparr>position := (fst (position b), floorY' - height b / 2)\<rparr>;
                       (b2, w2) = (if snd (velocity b1) > 0
                                   then floorResponse b1 globalBounce w
                                   else (b1, w))
                   in (groundFriction b2, w2))
             else (b\<lparr>isGrounded := False\<rparr>, w))"

definition updateSleepState :: "body \<Rightarrow> real \<Rightarrow> body" where
  "updateSleepState b deltaTime =
    (if btype b \<noteq> Dynamic then b
     else let velocityThreshold = 3;
              angularThreshold = 5/100;
              sleepTimeout = 1;
              totalVelocity = sqrt (fst (velocity b) * fst (velocity b)
                                    + snd (velocity b) * snd (velocity b))
          in if totalVelocity < velocityThreshold \<and> \<bar>angularVelocity b\<bar> < angularThreshold
             then (let b1 = b\<lparr>sleepTimer := sleepTimer b + deltaTime\<rparr>
                   in if sleepTimer b1 > sleepTimeout
                      then b1\<lparr>isSleeping := True, velocity := (0, 0), angularVelocity := 0\<rparr>
                      else b1)
             else b\<lparr>sleepTimer := 0, isSleeping := False\<rparr>)"

definition contactImpulse :: "vec \<Rightarrow> real" where
  "contactImpulse impulse = sqrt (fst impulse * fst impulse + snd impulse * snd impulse)"

text \<open>
  \<^verbatim>\<open>Physics.resolveCollision\<close>, in the three blocks of its body: the separation of the
  two boxes, the impulse along the normal, and the two contact records.
\<close>

definition separateBodies :: "body \<Rightarrow> body \<Rightarrow> real \<Rightarrow> real \<Rightarrow> real \<Rightarrow> real \<Rightarrow> body \<times> body" where
  "separateBodies a b dx dy overlapX overlapY =
    (let separationX = overlapX * (1/2) * sgn dx;
         separationY = overlapY * (1/2) * sgn dy;
         a1 = (if btype a = Dynamic
               then a\<lparr>position := (fst (position a) - separationX, snd (position a) - separationY)\<rparr>
               else a);
         b1 = (if btype b = Dynamic
               then b\<lparr>position := (fst (position b) + separationX, snd (position b) + separationY)\<rparr>
               else b)
     in (a1, b1))"

definition collisionImpulse :: "body \<Rightarrow> body \<Rightarrow> vec \<Rightarrow> real \<Rightarrow> vec" where
  "collisionImpulse a b normal velocityAlongNormal =
    (let rest = min (restitution a) (restitution b);
         impulseScalar = - (1 + rest) * velocityAlongNormal / (1 / mass a + 1 / mass b)
     in (impulseScalar * fst normal, impulseScalar * snd normal))"

definition applyImpulse :: "body \<Rightarrow> body \<Rightarrow> vec \<Rightarrow> body \<times> body" where
  "applyImpulse a b impulse =
    (let a2 = (if btype a = Dynamic
               then a\<lparr>velocity := (fst (velocity a) - fst impulse / mass a,
                                    snd (velocity a) - snd impulse / mass a)\<rparr>
               else a);
         b2 = (if btype b = Dynamic
               then b\<lparr>velocity := (fst (velocity b) + fst impulse / mass b,
                                    snd (velocity b) + snd impulse / mass b)\<rparr>
               else b)
     in (a2, b2))"

definition recordContacts :: "body \<Rightarrow> body \<Rightarrow> vec \<Rightarrow> world \<Rightarrow> body \<times> body \<times> world" where
  "recordContacts a b impulse w =
    (let mid = ((fst (position a) + fst (position b)) / 2,
                (snd (position a) + snd (position b)) / 2);
         (t1, w1) = Date_now w;
         a3 = a\<lparr>contacts := contacts a @
                  [\<lparr>c_time = t1, c_floor = False, c_other = Some (bid b),
                    c_position = mid, c_impulse = contactImpulse impulse\<rparr>],
                contactCount := Suc (contactCount a)\<rparr>;
         (t2, w2) = Date_now w1;
         b3 = b\<lparr>contacts := contacts b @
                  [\<lparr>c_time = t2, c_floor = False, c_other = Some (bid a),
                    c_position = mid, c_impulse = contactImpulse impulse\<rparr>],
                contactCount := Suc (contactCount b)\<rparr>
     in (a3, b3, w2))"

definition resolveCollision :: "body \<Rightarrow> body \<Rightarrow> settings \<Rightarrow> world \<Rightarrow> body \<times> body \<times> world" where
  "resolveCollision a b st w =
    (if btype a = Static \<and> btype b = Static then (a, b, w)
     else let dx = fst (position b) - fst (position a);
              dy = snd (position b) - snd (position a);
              dist = sqrt (dx * dx + dy * dy)
          in if dist = 0 then (a, b, w)
             else let normal = (dx / dist, dy / dist);
                      overlapX = (width a + width b) / 2 - \<bar>dx\<bar>;
                      overlapY = (height a + height b) / 2 - \<bar>dy\<bar>
                  in if overlapX > 0 \<and> overlapY > 0
                     then (let (a1, b1) = separateBodies a b dx dy overlapX overlapY;
                               relativeVelocity = (fst (velocity b1) - fst (velocity a1),
                                                   snd (velocity b1) - snd (velocity a1));
                               velocityAlongNormal = fst relativeVelocity * fst normal
                                                     + snd relativeVelocity * snd normal
                           in if velocityAlongNormal > 0 then (a1, b1, w)
                              else (let impulse = collisionImpulse a1 b1 normal velocityAlongNormal;
                                        (a2, b2) = applyImpulse a1 b1 impulse
                                    in recordContacts a2 b2 impulse w))
                     else (a, b, w))"

definition boxesOverlap :: "body \<Rightarrow> body \<Rightarrow> settings \<Rightarrow> bool" where
  "boxesOverlap a b st =
    (let aLeft = fst (position a) - width a / 2;
         aRight = fst (position a) + width a / 2;
         aTop = snd (position a) - height a / 2;
         aBottom = snd (position a) + height a / 2;
         bLeft = fst (position b) - width b / 2;
         bRight = fst (position b) + width b / 2;
         bTop = snd (position b) - height b / 2;
         bBottom = snd (position b) + height b / 2;
         tol = tolerance st
     in aLeft < bRight + tol \<and> aRight > bLeft - tol \<and> aTop < bBottom + tol \<and> aBottom > bTop - tol)"

definition checkBodyCollision :: "body \<Rightarrow> body \<Rightarrow> settings \<Rightarrow> world \<Rightarrow> (body \<times> body \<times> world) \<times> bool" where
  "checkBodyCollision a b st w =
    (if (collisionGroup a AND collidesWith b) = 0 \<or> (collisionGroup b AND collidesWith a) = 0
     then ((a, b, w), False)
     else if boxesOverlap a b st then (resolveCollision a b st w, True)
     else ((a, b, w), False))"

subsection \<open>Joints (Enhanced)\<close>

datatype error = TypeError | InvalidBodyIndices | InvalidJointParameters

record joint =
  jid :: real
  jtype :: joint_type
  bodyA :: "nat option"
  bodyB :: "nat option"
  anchorA :: vec
  anchorB :: vec
  targetDistance :: real
  stiffness :: real
  jdamping :: real

record joint_options =
  o_anchorA :: "vec option"
  o_anchorB :: "vec option"
  o_stiffness :: "real option"
  o_damping :: "real option"
  o_targetDistance :: "real option"

text \<open>Following a body reference: \<open>None\<close> is \<^verbatim>\<open>undefined\<close>.\<close>

definition deref :: "body list \<Rightarrow> nat option \<Rightarrow> nat option" where
  "deref bs r = (case r of None \<Rightarrow> None | Some i \<Rightarrow> if i < length bs then Some i else None)"

text \<open>
  \<^verbatim>\<open>Joints.createJoint\<close>. The result is what the call returns or throws, together with
  the joint collection and the world after it. Reading \<^verbatim>\<open>bodyA.position\<close> (for a distance
  joint without an explicit target distance) or \<^verbatim>\<open>bodyA.layer.name\<close> (in the log line,
  after the push) throws a \<^verbatim>\<open>TypeError\<close> when the reference is \<^verbatim>\<open>undefined\<close>.
\<close>

definition createJoint ::
  "body list \<Rightarrow> joint list \<Rightarrow> nat option \<Rightarrow> nat option \<Rightarrow> joint_type \<Rightarrow> joint_options \<Rightarrow> world
     \<Rightarrow> (error + joint) \<times> joint list \<times> world" where
  "createJoint bs js ra rb jt opts w =
    (let (t, w1) = Date_now w;
         (r, w2) = Math_random w1;
         j = \<lparr>jid = t + r, jtype = jt, bodyA = ra, bodyB = rb,
              anchorA = (case o_anchorA opts of None \<Rightarrow> (0, 0) | Some v \<Rightarrow> v),
              anchorB = (case o_anchorB opts of None \<Rightarrow> (0, 0) | Some v \<Rightarrow> v),
              targetDistance = 0,
              stiffness = js_or (o_stiffness opts) 1,
              jdamping = js_or (o_damping opts) (1/10)\<rparr>;
         explicit = (case o_targetDistance opts of None \<Rightarrow> False | Some v \<Rightarrow> v \<noteq> 0);
         target = (if jt \<noteq> Distance then Some 0
                   else if explicit then o_targetDistance opts
                   else (case (deref bs ra, deref bs rb) of
                           (Some ia, Some ib) \<Rightarrow>
                             Some (distance (fst (position (bs ! ia))) (snd (position (bs ! ia)))
                                            (fst (position (bs ! ib))) (snd (position (bs ! ib))))
                         | _ \<Rightarrow> None))
     in case target of
          None \<Rightarrow> (Inl TypeError, js, w2)
        | Some d \<Rightarrow>
            (let j' = j\<lparr>targetDistance := d\<rparr>
             in if deref bs ra = None \<or> deref bs rb = None
                then (Inl TypeError, js @ [j'], w2)
                else (Inr j', js @ [j'], w2)))"

text \<open>
  Every joint update starts by reading the position of its two bodies, which throws a
  \<^verbatim>\<open>TypeError\<close> when a reference is \<^verbatim>\<open>undefined\<close>, and then writes to the two body
  objects. \<open>onBodies\<close> is this frame: it looks the two bodies up in the store, applies
  the update to them and stores the results. (When both references are the same object,
  no update below changes more than one of its two results.)
\<close>

definition onBodies :: "joint \<Rightarrow> body list \<Rightarrow> (body \<Rightarrow> body \<Rightarrow> body \<times> body) \<Rightarrow> error + body list" where
  "onBodies j bs upd =
    (case (deref bs (bodyA j), deref bs (bodyB j)) of
       (Some ia, Some ib) \<Rightarrow>
         (let (a', b') = upd (bs ! ia) (bs ! ib) in Inr (bs[ia := a', ib := b']))
     | _ \<Rightarrow> Inl TypeError)"

definition distanceJoint :: "joint \<Rightarrow> body \<Rightarrow> body \<Rightarrow> body \<times> body" where
  "distanceJoint j a b =
    (let dx = fst (position b) - fst (position a);
         dy = snd (position b) - snd (position a);
         currentDistance = sqrt (dx * dx + dy * dy)
     in if currentDistance = 0 then (a, b)
        else let difference = currentDistance - targetDistance j;
                 correctionFactor = difference * stiffness j * (1/2);
                 normalX = dx / currentDistance;
                 normalY = dy / currentDistance;
                 correctionX = normalX * correctionFactor;
                 correctionY = normalY * correctionFactor;
                 a' = (if btype a = Dynamic
                       then a\<lparr>position := (fst (position a) + correctionX,
                                            snd (position a) + correctionY)\<rparr>
                       else a);
                 b' = (if btype b = Dynamic
                       then b\<lparr>position := (fst (position b) - correctionX,
                                            snd (position b) - correctionY)\<rparr>
                       else b)
             in (a', b'))"

definition updateDistanceJoint :: "joint \<Rightarrow> real \<Rightarrow> body list \<Rightarrow> error + body list" where
  "updateDistanceJoint j deltaTime bs = onBodies j bs (distanceJoint j)"

definition springJoint :: "joint \<Rightarrow> body \<Rightarrow> body \<Rightarrow> body \<times> body" where
  "springJoint j a b =
    (let dx = fst (position b) - fst (position a);
         dy = snd (position b) - snd (position a);
         currentDistance = sqrt (dx * dx + dy * dy)
     in if currentDistance = 0 then (a, b)
        else let springForce = (currentDistance - targetDistance j) * stiffness j;
                 dampingForce = jdamping j;
                 normalX = dx / currentDistance;
                 normalY = dy / currentDistance;
                 forceX = normalX * springForce;
                 forceY = normalY * springForce;
                 a' = (if btype a = Dynamic
                       then a\<lparr>acceleration := (fst (acceleration a) + forceX / mass a,
                                                snd (acceleration a) + forceY / mass a),
                              velocity := (fst (velocity a) * (1 - dampingForce),
                                           snd (velocity a) * (1 - dampingForce))\<rparr>
                       else a);
                 b' = (if btype b = Dynamic
                       then b\<lparr>acceleration := (fst (acceleration b) - forceX / mass b,
                                                snd (acceleration b) - forceY / mass b),
                              velocity := (fst (velocity b) * (1 - dampingForce),
                                           snd (velocity b) * (1 - dampingForce))\<rparr>
                       else b)
             in (a', b'))"

definition updateSpringJoint :: "joint \<Rightarrow> real \<Rightarrow> body list \<Rightarrow> error + body list" where
  "updateSpringJoint j deltaTime bs = onBodies j bs (springJoint j)"

definition pivotJoint :: "joint \<Rightarrow> body \<Rightarrow> body \<Rightarrow> body \<times> body" where
  "pivotJoint j a b =
    (let targetX = fst (position a) + fst (anchorA j);
         targetY = snd (position a) + snd (anchorA j);
         dx = targetX - (fst (position b) + fst (anchorB j));
         dy = targetY - (snd (position b) + snd (anchorB j));
         correctionFactor = stiffness j * (1/2)
     in if btype b = Dynamic
        then (a, b\<lparr>position := (fst (position b) + dx * correctionFactor,
                                snd (position b) + dy * correctionFactor)\<rparr>)
        else (a, b))"

definition updatePivotJoint :: "joint \<Rightarrow> real \<Rightarrow> body list \<Rightarrow> error + body list" where
  "updatePivotJoint j deltaTime bs = onBodies j bs (pivotJoint j)"

definition weldJoint :: "joint \<Rightarrow> body \<Rightarrow> body \<Rightarrow> body \<times> body" where
  "weldJoint j a b =
    (if btype a = Static \<and> btype b = Dynamic
     then (a, b\<lparr>position := (fst (position a) + fst (anchorA j),
                             snd (position a) + snd (anchorA j)),
               velocity := (0, 0)\<rparr>)
     else if btype b = Static \<and> btype a = Dynamic
     then (a\<lparr>position := (fst (position b) + fst (anchorB j),
                          snd (position b) + snd (anchorB j)),
            velocity := (0, 0)\<rparr>, b)
     else (a, b))"

definition updateWeldJoint :: "joint \<Rightarrow> real \<Rightarrow> body list \<Rightarrow> error + body list" where
  "updateWeldJoint j deltaTime bs = onBodies j bs (weldJoint j)"

definition updateJoint :: "joint \<Rightarrow> real \<Rightarrow> body list \<Rightarrow> error + body list" where
  "updateJoint j deltaTime bs =
    (case jtype j of
       Distance \<Rightarrow> updateDistanceJoint j deltaTime bs
     | Spring \<Rightarrow> updateSpringJoint j deltaTime bs
     | Pivot \<Rightarrow> updatePivotJoint j deltaTime bs
     | Weld \<Rightarrow> updateWeldJoint j deltaTime bs
     | OtherJoint \<Rightarrow> Inr bs)"

text \<open>
  \<^verbatim>\<open>Joints.updateJoints\<close>: the joints in creation order. An exception leaves the loop;
  every update throws before it writes, so the bodies are those the earlier joints left.
\<close>

fun updateJoints :: "joint list \<Rightarrow> real \<Rightarrow> body list \<Rightarrow> error option \<times> body list" where
  "updateJoints [] deltaTime bs = (None, bs)"
| "updateJoints (j # js) deltaTime bs =
    (case updateJoint j deltaTime bs of
       Inl e \<Rightarrow> (Some e, bs)
     | Inr bs' \<Rightarrow> updateJoints js deltaTime bs')"

subsection \<open>MiniNewton (Enhanced)\<close>

record sample =
  s_position :: vec
  s_rotation :: real
  s_time :: real
  s_sleeping :: bool

record contact_frame =
  cf_contacts :: "contact list"
  cf_contactCount :: nat
  cf_time :: real

text \<open>
  The engine: the object \<^verbatim>\<open>MiniNewton\<close> together with the collection \<^verbatim>\<open>Joints.joints\<close>,
  which is the one the simulation reads.
\<close>

record engine =
  config :: settings
  bodies :: "body list"
  joints :: "joint list"
  simulationData :: "sample list list"
  contactData :: "contact_frame list list"
  isSimulating :: bool

text \<open>\<^verbatim>\<open>this.bodies[i]\<close> for a number \<open>i\<close>: \<^verbatim>\<open>undefined\<close> outside the array.\<close>

definition bodyRef :: "body list \<Rightarrow> int \<Rightarrow> nat option" where
  "bodyRef bs i = (if 0 \<le> i \<and> i < int (length bs) then Some (nat i) else None)"

definition addJoint ::
  "engine \<Rightarrow> int \<Rightarrow> int \<Rightarrow> joint_type \<Rightarrow> joint_options \<Rightarrow> world \<Rightarrow> (error + joint) \<times> engine \<times> world" where
  "addJoint e bodyIndexA bodyIndexB jt opts w =
    (if bodyIndexA \<ge> int (length (bodies e)) \<or> bodyIndexB \<ge> int (length (bodies e))
     then (Inl InvalidBodyIndices, e, w)
     else let (res, js, w') = createJoint (bodies e) (joints e)
                                (bodyRef (bodies e) bodyIndexA) (bodyRef (bodies e) bodyIndexB) jt opts w
          in (res, e\<lparr>joints := js\<rparr>, w'))"

text \<open>One pass of the first inner loop of \<^verbatim>\<open>simulate\<close>, for one body.\<close>

definition bodyStep :: "settings \<Rightarrow> real \<Rightarrow> body \<Rightarrow> world \<Rightarrow> body \<times> world" where
  "bodyStep st deltaTime b w =
    (let b0 = b\<lparr>contacts := []\<rparr>;
         b1 = applyGravity b0 (gravityVector st) deltaTime;
         b2 = applyDamping b1 (damping st);
         b3 = updatePosition b2 deltaTime;
         (b4, w') = checkFloorCollision b3 (floorY st) (bounce st) st w;
         b5 = (if enableSleeping st then updateSleepState b4 deltaTime else b4)
     in (b5, w'))"

fun updateBodies :: "settings \<Rightarrow> real \<Rightarrow> body list \<Rightarrow> world \<Rightarrow> body list \<times> world" where
  "updateBodies st deltaTime [] w = ([], w)"
| "updateBodies st deltaTime (b # bs) w =
    (let (b', w1) = bodyStep st deltaTime b w;
         (bs', w2) = updateBodies st deltaTime bs w1
     in (b' # bs', w2))"

text \<open>The pairs \<open>(i, j)\<close> with \<open>i < j < n\<close>, in the order of the two nested loops.\<close>

definition collisionPairs :: "nat \<Rightarrow> (nat \<times> nat) list" where
  "collisionPairs n = concat (map (\<lambda>i. map (\<lambda>j. (i, j)) [Suc i..<n]) [0..<n])"

definition collidePair :: "settings \<Rightarrow> nat \<times> nat \<Rightarrow> body list \<times> world \<Rightarrow> body list \<times> world" where
  "collidePair st ij s =
    (let bs = fst s;
         ((a', b', w'), hit) = checkBodyCollision (bs ! fst ij) (bs ! snd ij) st (snd s)
     in (bs[fst ij := a', snd ij := b'], w'))"

definition collideAll :: "settings \<Rightarrow> body list \<times> world \<Rightarrow> body list \<times> world" where
  "collideAll st s = fold (collidePair st) (collisionPairs (length (fst s))) s"

definition sampleOf :: "body \<Rightarrow> nat \<Rightarrow> real \<Rightarrow> sample" where
  "sampleOf b frame deltaTime =
    \<lparr>s_position = position b, s_rotation = rotation b,
     s_time = real frame * deltaTime, s_sleeping = isSleeping b\<rparr>"

definition contactFrameOf :: "body \<Rightarrow> nat \<Rightarrow> real \<Rightarrow> contact_frame" where
  "contactFrameOf b frame deltaTime =
    \<lparr>cf_contacts = contacts b, cf_contactCount = contactCount b,
     cf_time = real frame * deltaTime\<rparr>"

text \<open>
  One pass of the frame loop. When a joint update throws, the frame is left before
  anything is stored for it.
\<close>

definition frameStep :: "real \<Rightarrow> nat \<Rightarrow> engine \<times> world \<Rightarrow> error option \<times> engine \<times> world" where
  "frameStep deltaTime frame s =
    (let e = fst s; st = config e;
         (bs1, w1) = updateBodies st deltaTime (bodies e) (snd s);
         (bs2, w2) = (if enableInterBodyCollision st then collideAll st (bs1, w1) else (bs1, w1));
         (err, bs3) = updateJoints (joints e) deltaTime bs2
     in case err of
          Some x \<Rightarrow> (Some x, e\<lparr>bodies := bs3\<rparr>, w2)
        | None \<Rightarrow>
            (None,
             e\<lparr>bodies := bs3,
               simulationData :=
                 map2 (\<lambda>tr b. tr @ [sampleOf b frame deltaTime]) (simulationData e) bs3,
               contactData :=
                 map2 (\<lambda>tr b. tr @ [contactFrameOf b frame deltaTime]) (contactData e) bs3\<rparr>,
             w2))"

text \<open>The frame loop, from frame \<open>frame\<close>, for \<open>n\<close> more frames.\<close>

fun runFrames :: "real \<Rightarrow> nat \<Rightarrow> nat \<Rightarrow> engine \<times> world \<Rightarrow> error option \<times> engine \<times> world" where
  "runFrames deltaTime frame 0 s = (None, s)"
| "runFrames deltaTime frame (Suc n) s =
    (case frameStep deltaTime frame s of
       (Some x, s') \<Rightarrow> (Some x, s')
     | (None, s') \<Rightarrow> runFrames deltaTime (Suc frame) n s')"

definition totalFrames :: "settings \<Rightarrow> nat" where
  "totalFrames st = nat \<lfloor>duration st * frameRate st\<rfloor>"

definition deltaTimeOf :: "settings \<Rightarrow> real" where
  "deltaTimeOf st = (1 / frameRate st) * timeScale st"

text \<open>
  \<^verbatim>\<open>MiniNewton.simulate\<close>. The result is the boolean returned. An exception of the frame
  loop is caught and gives \<^verbatim>\<open>false\<close>; so does a run of no frame, whose summary reads the
  last sample of an empty trajectory.
\<close>

definition simulate :: "engine \<Rightarrow> world \<Rightarrow> bool \<times> engine \<times> world" where
  "simulate e w =
    (if bodies e = [] then (False, e, w)
     else let e1 = e\<lparr>isSimulating := True,
                     simulationData := replicate (length (bodies e)) [],
                     contactData := replicate (length (bodies e)) []\<rparr>;
              (err, e2, w2) = runFrames (deltaTimeOf (config e)) 0 (totalFrames (config e)) (e1, w)
          in (err = None \<and> totalFrames (config e) > 0, e2\<lparr>isSimulating := False\<rparr>, w2))"

subsection \<open>The modular variant: physics.js, the joints module, the main module\<close>

text \<open>
  The bodies of this variant have no kind: every body is simulated. The functions below
  are those of \<^verbatim>\<open>physics.js\<close> that the main loop calls for one body, the distance joint
  of the joints module, and \<^verbatim>\<open>createJoint\<close> of the main module.
\<close>

record mbody =
  mb_position :: vec
  mb_velocity :: vec
  mb_acceleration :: vec
  mb_rotation :: real
  mb_angularVelocity :: real
  mb_mass :: real
  mb_width :: real
  mb_height :: real
  mb_restitution :: real
  mb_friction :: real
  mb_isGrounded :: bool
  mb_isSleeping :: bool
  mb_sleepTimer :: real

record msample =
  ms_position :: vec
  ms_rotation :: real
  ms_time :: real

datatype gravity_arg = GravityNumber real | GravityVector vec

definition applyGravity_modular :: "mbody \<Rightarrow> gravity_arg \<Rightarrow> real \<Rightarrow> mbody" where
  "applyGravity_modular b g deltaTime =
    (if \<not> mb_isGrounded b
     then (case g of
             GravityNumber n \<Rightarrow>
               b\<lparr>mb_acceleration := (fst (mb_acceleration b), snd (mb_acceleration b) + n * deltaTime)\<rparr>
           | GravityVector v \<Rightarrow>
               b\<lparr>mb_acceleration := (fst (mb_acceleration b) + fst v * deltaTime,
                                      snd (mb_acceleration b) + snd v * deltaTime)\<rparr>)
     else b)"

definition applyDamping_modular :: "mbody \<Rightarrow> real \<Rightarrow> mbody" where
  "applyDamping_modular b d =
    b\<lparr>mb_velocity := (fst (mb_velocity b) * d, snd (mb_velocity b) * d),
      mb_angularVelocity := mb_angularVelocity b * d\<rparr>"

definition updatePosition_modular :: "mbody \<Rightarrow> real \<Rightarrow> mbody" where
  "updatePosition_modular b deltaTime =
    (let v = (fst (mb_velocity b) + fst (mb_acceleration b) * deltaTime,
              snd (mb_velocity b) + snd (mb_acceleration b) * deltaTime);
         p = (fst (mb_position b) + fst v * deltaTime, snd (mb_position b) + snd v * deltaTime)
     in b\<lparr>mb_velocity := v, mb_position := p,
           mb_rotation := mb_rotation b + mb_angularVelocity b * deltaTime,
           mb_acceleration := (0, 0)\<rparr>)"

definition checkFloorCollision_modular :: "mbody \<Rightarrow> real \<Rightarrow> real \<Rightarrow> world \<Rightarrow> mbody \<times> world" where
  "checkFloorCollision_modular b floorY' bounce' w =
    (let bodyBottom = snd (mb_position b) + mb_height b / 2
     in if bodyBottom \<ge> floorY'
        then (let b1 = b\<lparr>mb_position := (fst (mb_position b), floorY' - mb_height b / 2)\<rparr>;
                  (b2, w2) =
                    (if snd (mb_velocity b1) > 0
                     then (let vy = - snd (mb_velocity b1) * bounce';
                               impactStrength = \<bar>vy\<bar>;
                               (r, w') = Math_random w;
                               c = b1\<lparr>mb_velocity := (fst (mb_velocity b1), vy),
                                      mb_angularVelocity :=
                                        mb_angularVelocity b1 + (r - 1/2) * impactStrength * (1/10)\<rparr>
                           in if \<bar>vy\<bar> < 10
                              then (c\<lparr>mb_velocity := (fst (mb_velocity c), 0), mb_isGrounded := True\<rparr>, w')
                              else (c\<lparr>mb_isGrounded := False\<rparr>, w'))
                     else (b1, w))
              in if mb_isGrounded b2
                 then (b2\<lparr>mb_velocity := (fst (mb_velocity b2) * (9/10), snd (mb_velocity b2)),
                          mb_angularVelocity := mb_angularVelocity b2 * (95/100)\<rparr>, w2)
                 else (b2, w2))
        else (b\<lparr>mb_isGrounded := False\<rparr>, w))"

definition applyMaterialFriction_modular :: "mbody \<Rightarrow> real \<Rightarrow> mbody" where
  "applyMaterialFriction_modular b deltaTime =
    (if mb_isGrounded b \<or> mb_isSleeping b
     then (let frictionCoeff = mb_friction b;
               normalForce = mb_mass b * 980;
               frictionForce = frictionCoeff * normalForce
           in if \<bar>fst (mb_velocity b)\<bar> > 1/10
              then (let frictionDirection = (if fst (mb_velocity b) > 0 then - 1 else 1);
                        vx = fst (mb_velocity b) + frictionDirection * frictionForce * deltaTime / mb_mass b
                    in b\<lparr>mb_velocity := ((if \<bar>vx\<bar> < 1 then 0 else vx), snd (mb_velocity b))\<rparr>)
              else b)
     else b)"

definition updateSleepState_modular :: "mbody \<Rightarrow> real \<Rightarrow> mbody" where
  "updateSleepState_modular b deltaTime =
    (let velocityThreshold = 5;
         angularThreshold = 1/10;
         sleepTimeout = 1;
         totalVelocity = sqrt (fst (mb_velocity b) * fst (mb_velocity b)
                               + snd (mb_velocity b) * snd (mb_velocity b))
     in if totalVelocity < velocityThreshold \<and> \<bar>mb_angularVelocity b\<bar> < angularThreshold
        then (let b1 = b\<lparr>mb_sleepTimer := mb_sleepTimer b + deltaTime\<rparr>
              in if mb_sleepTimer b1 > sleepTimeout
                 then b1\<lparr>mb_isSleeping := True, mb_velocity := (0, 0), mb_angularVelocity := 0\<rparr>
                 else b1)
        else b\<lparr>mb_sleepTimer := 0, mb_isSleeping := False\<rparr>)"

definition msampleOf :: "mbody \<Rightarrow> nat \<Rightarrow> real \<Rightarrow> msample" where
  "msampleOf b frame deltaTime =
    \<lparr>ms_position = mb_position b, ms_rotation = mb_rotation b, ms_time = real frame * deltaTime\<rparr>"

text \<open>
  One pass of the inner loop of \<^verbatim>\<open>simulate\<close> of the main module, for one body: the body
  after the pass and the sample stored for the frame.
\<close>

definition simulateBody_modular :: "settings \<Rightarrow> real \<Rightarrow> nat \<Rightarrow> mbody \<Rightarrow> world \<Rightarrow> (mbody \<times> msample) \<times> world" where
  "simulateBody_modular st deltaTime frame b w =
    (if enableSleeping st \<and> mb_isSleeping b
     then ((b, msampleOf b frame deltaTime), w)
     else let b1 = applyGravity_modular b (GravityVector (gravityVector st)) deltaTime;
              b2 = applyDamping_modular b1 (damping st);
              b3 = updatePosition_modular b2 deltaTime;
              (b4, w') = checkFloorCollision_modular b3 (floorY st) (bounce st) w;
              b5 = applyMaterialFriction_modular b4 deltaTime;
              b6 = (if enableSleeping st then updateSleepState_modular b5 deltaTime else b5)
          in ((b6, msampleOf b6 frame deltaTime), w'))"

record mjoint =
  mj_type :: joint_type
  mj_bodyA :: nat
  mj_bodyB :: nat
  mj_damping :: real
  mj_strength :: real
  mj_targetDistance :: real
  mj_lastDistance :: real

definition calculateDistance_modular :: "mbody \<Rightarrow> mbody \<Rightarrow> real" where
  "calculateDistance_modular a b =
    (let dx = fst (mb_position b) - fst (mb_position a);
         dy = snd (mb_position b) - snd (mb_position a)
     in sqrt (dx * dx + dy * dy))"

text \<open>
  \<^verbatim>\<open>Joints.applyDistanceJoint\<close> of the joints module, on the joint and the body store. The
  guard \<^verbatim>\<open>currentDistance < 0.001\<close> keeps the divisor away from zero.
\<close>

definition applyDistanceJoint_modular :: "mjoint \<Rightarrow> real \<Rightarrow> mbody list \<Rightarrow> mjoint \<times> mbody list" where
  "applyDistanceJoint_modular j deltaTime bs =
    (let a = bs ! mj_bodyA j; b = bs ! mj_bodyB j;
         dx = fst (mb_position b) - fst (mb_position a);
         dy = snd (mb_position b) - snd (mb_position a);
         currentDistance = sqrt (dx * dx + dy * dy)
     in if currentDistance < 1/1000 then (j, bs)
        else let err = currentDistance - mj_targetDistance j;
                 correctionFactor = err / currentDistance * mj_strength j;
                 relativeVelocity = (fst (mb_velocity b) - fst (mb_velocity a),
                                     snd (mb_velocity b) - snd (mb_velocity a));
                 dampingForce = (fst relativeVelocity * mj_damping j, snd relativeVelocity * mj_damping j);
                 correctionX = (dx / currentDistance) * correctionFactor * (1/2);
                 correctionY = (dy / currentDistance) * correctionFactor * (1/2);
                 a' = a\<lparr>mb_position := (fst (mb_position a) + (correctionX - fst dampingForce * deltaTime),
                                         snd (mb_position a) + (correctionY - snd dampingForce * deltaTime))\<rparr>;
                 bs1 = bs[mj_bodyA j := a'];
                 b1 = bs1 ! mj_bodyB j;
                 b' = b1\<lparr>mb_position := (fst (mb_position b1) - (correctionX + fst dampingForce * deltaTime),
                                          snd (mb_position b1) - (correctionY + snd dampingForce * deltaTime))\<rparr>
             in (j\<lparr>mj_lastDistance := currentDistance\<rparr>, bs1[mj_bodyB j := b']))"

text \<open>
  \<^verbatim>\<open>Joints.createJoint\<close> of the joints module refuses a missing body (and an unknown
  joint type); \<^verbatim>\<open>createJoint\<close> of the main module checks the upper bound of the indices
  first and pushes the joint it gets. The defaults are those of \<^verbatim>\<open>jointTypes\<close>; a spring
  has no default strength, which is written as \<open>0\<close> here.
\<close>

definition jointDefaults_modular :: "joint_type \<Rightarrow> (real \<times> real) option" where
  "jointDefaults_modular jt =
    (case jt of
       Distance \<Rightarrow> Some (1/10, 1)
     | Pivot \<Rightarrow> Some (5/100, 1)
     | Spring \<Rightarrow> Some (2/10, 0)
     | Weld \<Rightarrow> Some (0, 1)
     | OtherJoint \<Rightarrow> None)"

definition createJoint_modular ::
  "mbody list \<Rightarrow> mjoint list \<Rightarrow> int \<Rightarrow> int \<Rightarrow> joint_type \<Rightarrow> joint_options \<Rightarrow> (error + mjoint) \<times> mjoint list" where
  "createJoint_modular bs js bodyIndexA bodyIndexB jt opts =
    (if bodyIndexA \<ge> int (length bs) \<or> bodyIndexB \<ge> int (length bs)
     then (Inl InvalidBodyIndices, js)
     else if bodyIndexA < 0 \<or> bodyIndexB < 0 then (Inl InvalidJointParameters, js)
     else (case jointDefaults_modular jt of
             None \<Rightarrow> (Inl InvalidJointParameters, js)
           | Some (d, s) \<Rightarrow>
               (let a = bs ! nat bodyIndexA; b = bs ! nat bodyIndexB;
                    j = \<lparr>mj_type = jt, mj_bodyA = nat bodyIndexA, mj_bodyB = nat bodyIndexB,
                         mj_damping = (case o_damping opts of None \<Rightarrow> d | Some v \<Rightarrow> v),
                         mj_strength = (case o_stiffness opts of None \<Rightarrow> s | Some v \<Rightarrow> v),
                         mj_targetDistance = js_or (o_targetDistance opts) (calculateDistance_modular a b),
                         mj_lastDistance = 0\<rparr>
                in (Inr j, js @ [j]))))"

subsection \<open>The Final variant\<close>

record body_final =
  f_id :: nat
  f_type :: body_type
  f_position :: vec
  f_velocity :: vec
  f_acceleration :: vec
  f_rotation :: real
  f_angularVelocity :: real
  f_mass :: real
  f_bounce :: real
  f_friction :: real
  f_width :: real
  f_height :: real
  f_fixedRotation :: bool
  f_gravityScale :: real

record joint_final =
  jf_id :: nat
  jf_bodyA :: nat
  jf_bodyB :: nat
  jf_type :: joint_type
  jf_stiffness :: real
  jf_damping :: real
  jf_restLength :: real

definition calculateMass_final :: "layer \<Rightarrow> real" where
  "calculateMass_final l =
    (let area = l_width l * l_height l;
         scaledArea = area * (fst (l_scale l) / 100) * (snd (l_scale l) / 100)
     in max 1 (scaledArea / 10000))"

definition calculateDistance_final :: "vec \<Rightarrow> vec \<Rightarrow> real" where
  "calculateDistance_final pos1 pos2 =
    (let dx = fst pos1 - fst pos2; dy = snd pos1 - snd pos2 in sqrt (dx * dx + dy * dy))"

text \<open>\<^verbatim>\<open>createJoint\<close>: \<^verbatim>\<open>null\<close> when either index has no body, else the joint is pushed.\<close>

definition createJoint_final ::
  "body_final list \<Rightarrow> joint_final list \<Rightarrow> int \<Rightarrow> int \<Rightarrow> joint_type option \<Rightarrow> joint_options
     \<Rightarrow> joint_final option \<times> joint_final list" where
  "createJoint_final bs js bodyAIndex bodyBIndex jt opts =
    (if 0 \<le> bodyAIndex \<and> bodyAIndex < int (length bs)
        \<and> 0 \<le> bodyBIndex \<and> bodyBIndex < int (length bs)
     then (let j = \<lparr>jf_id = length js, jf_bodyA = nat bodyAIndex, jf_bodyB = nat bodyBIndex,
                    jf_type = (case jt of None \<Rightarrow> Distance | Some k \<Rightarrow> k),
                    jf_stiffness = js_or (o_stiffness opts) 1,
                    jf_damping = js_or (o_damping opts) (1/10),
                    jf_restLength = calculateDistance_final (f_position (bs ! nat bodyAIndex))
                                                            (f_position (bs ! nat bodyBIndex))\<rparr>
           in (Some j, js @ [j]))
     else (None, js))"

text \<open>
  One joint of \<^verbatim>\<open>updateJoints\<close>. The quotients \<^verbatim>\<open>dx / distance\<close> and \<^verbatim>\<open>dy / distance\<close>
  are taken without a test of \<^verbatim>\<open>distance\<close>: the result is \<open>None\<close> when the divisor is
  zero, where JavaScript stores \<^verbatim>\<open>NaN\<close> in the accelerations of both bodies.
\<close>

definition updateJoint_final :: "joint_final \<Rightarrow> body_final list \<Rightarrow> body_final list option" where
  "updateJoint_final j bs =
    (let a = bs ! jf_bodyA j; b = bs ! jf_bodyB j;
         dx = fst (f_position b) - fst (f_position a);
         dy = snd (f_position b) - snd (f_position a);
         dist = sqrt (dx * dx + dy * dy)
     in if jf_type j = Distance \<or> jf_type j = Spring
        then (let difference = dist - jf_restLength j;
                  force = difference * jf_stiffness j
              in case (js_div dx dist, js_div dy dist) of
                   (Some nx, Some ny) \<Rightarrow>
                     (let a' = a\<lparr>f_acceleration := (fst (f_acceleration a) + nx * force / f_mass a,
                                                     snd (f_acceleration a) + ny * force / f_mass a)\<rparr>;
                          bs1 = bs[jf_bodyA j := a'];
                          b1 = bs1 ! jf_bodyB j;
                          b' = b1\<lparr>f_acceleration := (fst (f_acceleration b1) - nx * force / f_mass b1,
                                                      snd (f_acceleration b1) - ny * force / f_mass b1)\<rparr>
                      in Some (bs1[jf_bodyB j := b']))
                 | _ \<Rightarrow> None)
        else Some bs)"

fun updateJoints_final :: "joint_final list \<Rightarrow> body_final list \<Rightarrow> body_final list option" where
  "updateJoints_final [] bs = Some bs"
| "updateJoints_final (j # js) bs =
    (case updateJoint_final j bs of
       None \<Rightarrow> None
     | Some bs' \<Rightarrow> updateJoints_final js bs')"








subsection \<open>Fixtures\<close>

text \<open>The default settings of the Enhanced variant, and a world to run examples in.\<close>

definition DEFAULT_SETTINGS :: settings where
  "DEFAULT_SETTINGS =
    \<lparr>gravity = 980, gravityVector = (0, 980), bounce = 8/10, floorY = 1000, duration = 5,
     frameRate = 30, damping = 99/100, sfriction = 3/10, material = ''default'',
     enableInterBodyCollision = True, enableSleeping = True, collisionTolerance = 1,
     timeScale = 1\<rparr>"

definition world0 :: world where
  "world0 = \<lparr>randoms = (\<lambda>n. 1/2), rnd_used = 0, clock = (\<lambda>n. real n), now_used = 0\<rparr>"

text \<open>
  The body that \<^verbatim>\<open>createBody\<close> builds under the default settings for a layer of
  100 by 100 pixels at scale 100 percent, of a given kind at a given position.
\<close>

definition box :: "body_type \<Rightarrow> vec \<Rightarrow> body" where
  "box k p =
    \<lparr>bid = 0, btype = k, position = p, velocity = (0, 0), acceleration = (0, 0),
     rotation = 0, angularVelocity = 0, angularAcceleration = 0, mass = 1,
     width = 100, height = 100, restitution = 8/10, friction = 3/10,
     isGrounded = False, isSleeping = False, sleepTimer = 0, fixedRotation = False,
     gravityScale = 1, linearDamping = 1/100, angularDamping = 5/100,
     collisionGroup = 1, collidesWith = 31, contacts = [], contactCount = 0\<rparr>"

definition noOptions :: joint_options where
  "noOptions = \<lparr>o_anchorA = None, o_anchorB = None, o_stiffness = None, o_damping = None,
                o_targetDistance = None\<rparr>"

text \<open>
  The first inner loop of \<open>n\<close> successive frames, seen from one body: what happens to a
  body over \<open>n\<close> frames in which no collision and no joint touches it.
\<close>

fun bodyFrames :: "settings \<Rightarrow> real \<Rightarrow> nat \<Rightarrow> body \<Rightarrow> world \<Rightarrow> body \<times> world" where
  "bodyFrames st deltaTime 0 b w = (b, w)"
| "bodyFrames st deltaTime (Suc n) b w =
    (let (b', w') = bodyStep st deltaTime b w in bodyFrames st deltaTime n b' w')"

text \<open>A dynamic body of the Final variant as \<^verbatim>\<open>addBody\<close> builds it for a layer of 100 by 100.\<close>

definition box_final :: "nat \<Rightarrow> vec \<Rightarrow> body_final" where
  "box_final n p =
    \<lparr>f_id = n, f_type = Dynamic, f_position = p, f_velocity = (0, 0), f_acceleration = (0, 0),
     f_rotation = 0, f_angularVelocity = 0, f_mass = 1, f_bounce = 8/10, f_friction = 3/10,
     f_width = 100, f_height = 100, f_fixedRotation = False, f_gravityScale = 1\<rparr>"

definition box_modular :: "vec \<Rightarrow> mbody" where
  "box_modular p =
    \<lparr>mb_position = p, mb_velocity = (0, 0), mb_acceleration = (0, 0), mb_rotation = 0,
     mb_angularVelocity = 0, mb_mass = 1, mb_width = 100, mb_height = 100,
     mb_restitution = 8/10, mb_friction = 3/10, mb_isGrounded = False, mb_isSleeping = False,
     mb_sleepTimer = 0\<rparr>"

definition engine0 :: "body list \<Rightarrow> joint list \<Rightarrow> engine" where
  "engine0 bs js =
    \<lparr>config = DEFAULT_SETTINGS, bodies = bs, joints = js, simulationData = [],
     contactData = [], isSimulating = False\<rparr>"

subsection \<open>Notions used in the properties\<close>

text \<open>The bottom edge of a body, and the distance between the centres of two bodies.\<close>

definition bottomEdge :: "body \<Rightarrow> real" where
  "bottomEdge b = snd (position b) + height b / 2"

definition bodyDistance :: "body \<Rightarrow> body \<Rightarrow> real" where
  "bodyDistance a b =
    distance (fst (position a)) (snd (position a)) (fst (position b)) (snd (position b))"

text \<open>The fields of a body that are set at creation and that no step of a run writes.\<close>

definition params ::
  "body \<Rightarrow> body_type \<times> (real \<times> real \<times> real) \<times> (real \<times> real) \<times> bool \<times> (real \<times> real \<times> real)
     \<times> (32 word \<times> 32 word)" where
  "params b =
    (btype b, (mass b, width b, height b), (restitution b, friction b), fixedRotation b,
     (gravityScale b, linearDamping b, angularDamping b), (collisionGroup b, collidesWith b))"

text \<open>The kind of a body and, for a static body, its pose.\<close>

definition anchored :: "body \<Rightarrow> body_type \<times> (vec \<times> real) option" where
  "anchored b = (btype b, if btype b = Static then Some (position b, rotation b) else None)"

text \<open>
  What a run can read of the clock and of the ids: \<open>strip\<close> forgets the id of a body and
  its contact log (which holds clock readings and ids of other bodies), \<open>wstrip\<close> forgets
  the clock, and \<open>eview\<close> is an engine without the ids and contact logs of its bodies and
  without its stored contact frames.
\<close>

definition strip :: "body \<Rightarrow> body" where
  "strip b = b\<lparr>bid := 0, contacts := []\<rparr>"

definition wstrip :: "world \<Rightarrow> world" where
  "wstrip w = w\<lparr>clock := (\<lambda>n. 0), now_used := 0\<rparr>"

definition eview :: "engine \<Rightarrow> settings \<times> body list \<times> joint list \<times> sample list list \<times> bool" where
  "eview e = (config e, map strip (bodies e), joints e, simulationData e, isSimulating e)"

text \<open>Functions of a body that the collision response, or a joint update, cannot change.\<close>

definition collision_safe :: "(body \<Rightarrow> 'a) \<Rightarrow> bool" where
  "collision_safe f \<longleftrightarrow>
    (\<forall>b p. btype b = Dynamic \<longrightarrow> f (b\<lparr>position := p\<rparr>) = f b)
    \<and> (\<forall>b v. btype b = Dynamic \<longrightarrow> f (b\<lparr>velocity := v\<rparr>) = f b)
    \<and> (\<forall>b cs n. f (b\<lparr>contacts := cs, contactCount := n\<rparr>) = f b)"

definition joint_safe :: "(body \<Rightarrow> 'a) \<Rightarrow> bool" where
  "joint_safe f \<longleftrightarrow>
    (\<forall>b p. btype b = Dynamic \<longrightarrow> f (b\<lparr>position := p\<rparr>) = f b)
    \<and> (\<forall>b p v. btype b = Dynamic \<longrightarrow> f (b\<lparr>position := p, velocity := v\<rparr>) = f b)
    \<and> (\<forall>b a v. btype b = Dynamic \<longrightarrow> f (b\<lparr>acceleration := a, velocity := v\<rparr>) = f b)"

text \<open>
  A static anchor below the floor, a dynamic body above it, and a distance joint of rest
  length 100 between them; one frame of one second.
\<close>

definition pulledBelow :: engine where
  "pulledBelow =
    \<lparr>config = DEFAULT_SETTINGS\<lparr>duration := 1, frameRate := 1\<rparr>,
     bodies = [box Static (0, 1500), box Dynamic (0, 900)],
     joints = [\<lparr>jid = 0, jtype = Distance, bodyA = Some 0, bodyB = Some 1, anchorA = (0, 0),
                anchorB = (0, 0), targetDistance = 100, stiffness = 1, jdamping = 1/10\<rparr>],
     simulationData = [], contactData = [], isSimulating = False\<rparr>"

text \<open>
  One dynamic body dropped from the top with no bounce, two frames of one second, no
  joints and no collisions between bodies.
\<close>

definition dropOne :: engine where
  "dropOne =
    \<lparr>config = DEFAULT_SETTINGS\<lparr>bounce := 0, duration := 2, frameRate := 1,
                                  enableInterBodyCollision := False\<rparr>,
     bodies = [(box Dynamic (0, 0))\<lparr>restitution := 0\<rparr>],
     joints = [], simulationData = [], contactData = [], isSimulating = False\<rparr>"

text \<open>
  The anchor, body and joint of \<open>pulledBelow\<close> without gravity, for two frames of one
  second: the body goes to sleep in the second frame.
\<close>

definition pulledAsleep :: engine where
  "pulledAsleep =
    pulledBelow\<lparr>config := DEFAULT_SETTINGS\<lparr>gravity := 0, gravityVector := (0, 0),
                                              duration := 2, frameRate := 1\<rparr>\<rparr>"

text \<open>A body asleep on the floor, and a body asleep above it.\<close>

definition asleepOnFloor :: body where
  "asleepOnFloor =
    (box Dynamic (0, 950))\<lparr>isGrounded := True, isSleeping := True, sleepTimer := 2\<rparr>"

definition asleepInAir :: body where
  "asleepInAir = (box Dynamic (0, 500))\<lparr>isSleeping := True, sleepTimer := 2\<rparr>"



text \<open>
  Two dynamic bodies without gravity, joined by a distance joint: at distance 150 with
  rest length 100, and at distance 100 with rest length 200. Three frames of one second.
\<close>

definition jointRun :: "real \<Rightarrow> real \<Rightarrow> engine" where
  "jointRun d l =
    \<lparr>config = DEFAULT_SETTINGS\<lparr>gravity := 0, gravityVector := (0, 0), duration := 3,
                                  frameRate := 1, enableInterBodyCollision := False\<rparr>,
     bodies = [box Dynamic (0, 0), box Dynamic (d, 0)],
     joints = [\<lparr>jid = 0, jtype = Distance, bodyA = Some 0, bodyB = Some 1, anchorA = (0, 0),
                anchorB = (0, 0), targetDistance = l, stiffness = 1, jdamping = 1/10\<rparr>],
     simulationData = [], contactData = [], isSimulating = False\<rparr>"

text \<open>The bodies and the world of a frame after its body loop and its collision pass.\<close>

definition afterCollisions :: "real \<Rightarrow> engine \<times> world \<Rightarrow> body list \<times> world" where
  "afterCollisions dt s =
     (if enableInterBodyCollision (config (fst s))
      then collideAll (config (fst s)) (updateBodies (config (fst s)) dt (bodies (fst s)) (snd s))
      else updateBodies (config (fst s)) dt (bodies (fst s)) (snd s))"

text \<open>
  The run \<open>pulledBelow\<close> with other ids for its bodies, a contact log left over from an
  earlier run, and another clock.
\<close>

definition pulledBelow' :: engine where
  "pulledBelow' =
    pulledBelow\<lparr>bodies := [(box Static (0, 1500))\<lparr>bid := 17\<rparr>,
                            (box Dynamic (0, 900))\<lparr>bid := 42,
                               contacts := [\<lparr>c_time = 5, c_floor = True, c_other = None,
                                             c_position = (0, 950), c_impulse = 1\<rparr>]\<rparr>],
                 contactData := [[], []]\<rparr>"

definition world1 :: world where
  "world1 = \<lparr>randoms = (\<lambda>n. 1/2), rnd_used = 0, clock = (\<lambda>n. 1000 + 16 * real n), now_used = 7\<rparr>"




section \<open>Auxiliary lemmas\<close>

subsection \<open>Arithmetic helpers\<close>

lemma sqrt_less_numeral: "0 \<le> c \<Longrightarrow> (sqrt x < c) = (x < c * c)"
  by (metis real_sqrt_less_iff real_sqrt_abs2 abs_of_nonneg)

lemma map_update_same: "f x = f (xs ! i) \<Longrightarrow> map f (xs[i := x]) = map f xs"
  by (cases "i < length xs") (simp_all add: map_update list_update_same_conv list_update_beyond)

subsection \<open>What each step of the body loop leaves alone\<close>

lemma params_applyGravity: "params (applyGravity b g dt) = params b"
  by (simp add: params_def applyGravity_def)

lemma params_applyDamping: "params (applyDamping b d) = params b"
  by (simp add: params_def applyDamping_def Let_def)

lemma params_updatePosition: "params (updatePosition b dt) = params b"
  by (simp add: params_def updatePosition_def Let_def)

lemma params_floorResponse: "params (fst (floorResponse b gb w)) = params b"
  by (simp add: params_def floorResponse_def Let_def split_beta Date_now_def Math_random_def)

lemma params_groundFriction: "params (groundFriction b) = params b"
  by (simp add: params_def groundFriction_def Let_def)

lemma params_checkFloorCollision: "params (fst (checkFloorCollision b fy gb st w)) = params b"
proof -
  have "params (b\<lparr>position := p\<rparr>) = params b" "params (b\<lparr>isGrounded := g\<rparr>) = params b" for p g
    by (simp_all add: params_def)
  then show ?thesis
    by (simp add: checkFloorCollision_def Let_def split_beta params_groundFriction
        params_floorResponse)
qed

lemma params_updateSleepState: "params (updateSleepState b dt) = params b"
  by (simp add: params_def updateSleepState_def Let_def)

lemma bodyStep_fst:
  "fst (bodyStep st dt b w) =
    (let b4 = fst (checkFloorCollision
                    (updatePosition
                      (applyDamping (applyGravity (b\<lparr>contacts := []\<rparr>) (gravityVector st) dt)
                        (damping st)) dt)
                    (floorY st) (bounce st) st w)
     in if enableSleeping st then updateSleepState b4 dt else b4)"
  by (simp add: bodyStep_def Let_def split_beta)

lemma bodyStep_snd:
  "snd (bodyStep st dt b w) =
    snd (checkFloorCollision
          (updatePosition
            (applyDamping (applyGravity (b\<lparr>contacts := []\<rparr>) (gravityVector st) dt)
              (damping st)) dt)
          (floorY st) (bounce st) st w)"
  by (simp add: bodyStep_def Let_def split_beta)

lemma params_bodyStep: "params (fst (bodyStep st dt b w)) = params b"
proof -
  have "params (b\<lparr>contacts := []\<rparr>) = params b" by (simp add: params_def)
  then show ?thesis
    by (simp add: bodyStep_fst Let_def params_updateSleepState params_checkFloorCollision
        params_updatePosition params_applyDamping params_applyGravity)
qed

lemma params_fields:
  assumes "params b' = params b"
  shows "btype b' = btype b" "height b' = height b" "width b' = width b" "mass b' = mass b"
    "gravityScale b' = gravityScale b" "fixedRotation b' = fixedRotation b"
    "restitution b' = restitution b" "friction b' = friction b"
    "linearDamping b' = linearDamping b" "angularDamping b' = angularDamping b"
    "collisionGroup b' = collisionGroup b" "collidesWith b' = collidesWith b"
  using assms by (simp_all add: params_def)

lemmas bodyStep_fields = params_fields [OF params_bodyStep]

lemma updateBodies_length: "length (fst (updateBodies st dt bs w)) = length bs"
  by (induction bs arbitrary: w) (simp_all add: split_beta)


lemma updateBodies_map:
  assumes "\<And>b w. f (fst (bodyStep st dt b w)) = f b"
  shows "map f (fst (updateBodies st dt bs w)) = map f bs"
  by (induction bs arbitrary: w) (simp_all add: split_beta assms)

lemma separateBodies_safe:
  assumes "collision_safe f"
  shows "f (fst (separateBodies a b dx dy ox oy)) = f a" "f (snd (separateBodies a b dx dy ox oy)) = f b"
  using assms by (simp_all add: separateBodies_def Let_def collision_safe_def)

lemma applyImpulse_safe:
  assumes "collision_safe f"
  shows "f (fst (applyImpulse a b i)) = f a" "f (snd (applyImpulse a b i)) = f b"
  using assms by (simp_all add: applyImpulse_def Let_def collision_safe_def)

lemma recordContacts_safe:
  assumes "collision_safe f"
  shows "f (fst (recordContacts a b i w)) = f a" "f (fst (snd (recordContacts a b i w))) = f b"
  using assms by (simp_all add: recordContacts_def Let_def split_beta collision_safe_def)

lemma resolveCollision_safe:
  assumes "collision_safe f"
  shows "f (fst (resolveCollision a b st w)) = f a" "f (fst (snd (resolveCollision a b st w))) = f b"
  by (simp_all add: resolveCollision_def Let_def split_beta separateBodies_safe [OF assms]
      applyImpulse_safe [OF assms] recordContacts_safe [OF assms])

lemma collision_safe_params: "collision_safe params"
  by (simp add: collision_safe_def params_def)

lemma collision_safe_anchored: "collision_safe anchored"
  by (simp add: collision_safe_def anchored_def)

lemma checkBodyCollision_safe:
  assumes "collision_safe f"
  shows "f (fst (fst (checkBodyCollision a b st w))) = f a"
    "f (fst (snd (fst (checkBodyCollision a b st w)))) = f b"
  by (simp_all add: checkBodyCollision_def resolveCollision_safe [OF assms])

lemma map_update2_same:
  assumes "f x = f (xs ! i)" "f y = f (xs ! j)"
  shows "map f (xs[i := x, j := y]) = map f xs"
proof -
  have "f y = f (xs[i := x] ! j)"
    using assms by (cases "i = j"; cases "i < length xs") (simp_all add: list_update_beyond)
  then have "map f (xs[i := x, j := y]) = map f (xs[i := x])" by (rule map_update_same)
  also have "\<dots> = map f xs" using assms(1) by (rule map_update_same)
  finally show ?thesis .
qed

lemma collidePair_safe:
  assumes "collision_safe f"
  shows "map f (fst (collidePair st ij s)) = map f (fst s)"
  by (simp add: collidePair_def Let_def split_beta map_update2_same
      checkBodyCollision_safe [OF assms])

lemma collidePairs_safe:
  assumes "collision_safe f"
  shows "map f (fst (fold (collidePair st) ps s)) = map f (fst s)"
  by (induction ps arbitrary: s) (simp_all add: collidePair_safe [OF assms])

lemma collideAll_safe:
  assumes "collision_safe f"
  shows "map f (fst (collideAll st s)) = map f (fst s)"
  by (simp add: collideAll_def collidePairs_safe [OF assms])

lemma onBodies_safe:
  assumes "\<And>a b. f (fst (upd a b)) = f a" "\<And>a b. f (snd (upd a b)) = f b"
    and "onBodies j bs upd = Inr bs'"
  shows "map f bs' = map f bs"
  using assms(3)
  by (auto simp: onBodies_def split_beta map_update2_same assms(1,2) split: option.splits)

lemma distanceJoint_safe:
  assumes "joint_safe f"
  shows "f (fst (distanceJoint j a b)) = f a" "f (snd (distanceJoint j a b)) = f b"
  using assms by (simp_all add: distanceJoint_def Let_def joint_safe_def)

lemma springJoint_safe:
  assumes "joint_safe f"
  shows "f (fst (springJoint j a b)) = f a" "f (snd (springJoint j a b)) = f b"
  using assms by (simp_all add: springJoint_def Let_def joint_safe_def)

lemma pivotJoint_safe:
  assumes "joint_safe f"
  shows "f (fst (pivotJoint j a b)) = f a" "f (snd (pivotJoint j a b)) = f b"
  using assms by (simp_all add: pivotJoint_def Let_def joint_safe_def)

lemma weldJoint_safe:
  assumes "joint_safe f"
  shows "f (fst (weldJoint j a b)) = f a" "f (snd (weldJoint j a b)) = f b"
  using assms by (simp_all add: weldJoint_def Let_def joint_safe_def)

lemma updateJoint_safe:
  assumes "joint_safe f" "updateJoint j dt bs = Inr bs'"
  shows "map f bs' = map f bs"
  using assms
  using assms(2)
  by (cases "jtype j")
     (auto simp: updateJoint_def updateDistanceJoint_def updateSpringJoint_def
        updatePivotJoint_def updateWeldJoint_def
        intro: onBodies_safe [where f = f, OF distanceJoint_safe [OF assms(1)]]
               onBodies_safe [where f = f, OF springJoint_safe [OF assms(1)]]
               onBodies_safe [where f = f, OF pivotJoint_safe [OF assms(1)]]
               onBodies_safe [where f = f, OF weldJoint_safe [OF assms(1)]])

lemma updateJoints_safe:
  assumes "joint_safe f"
  shows "map f (snd (updateJoints js dt bs)) = map f bs"
  by (induction js arbitrary: bs)
     (auto simp: updateJoint_safe [OF assms] split: sum.splits)

lemma joint_safe_params: "joint_safe params"
  by (simp add: joint_safe_def params_def)

lemma joint_safe_anchored: "joint_safe anchored"
  by (simp add: joint_safe_def anchored_def)



lemma anchored_bodyStep: "anchored (fst (bodyStep st dt b w)) = anchored b"
proof (cases "btype b = Static")
  case True
  then show ?thesis
    by (simp add: bodyStep_fst Let_def applyGravity_def applyDamping_def updatePosition_def
        checkFloorCollision_def updateSleepState_def anchored_def)
next
  case False
  then show ?thesis by (simp add: anchored_def bodyStep_fields)
qed

text \<open>The bodies after the three phases of a frame.\<close>

lemma frameStep_parts:
  "config (fst (snd (frameStep dt fr s))) = config (fst s)"
  "joints (fst (snd (frameStep dt fr s))) = joints (fst s)"
  "isSimulating (fst (snd (frameStep dt fr s))) = isSimulating (fst s)"
  "bodies (fst (snd (frameStep dt fr s))) =
     snd (updateJoints (joints (fst s)) dt
           (fst (if enableInterBodyCollision (config (fst s))
                 then collideAll (config (fst s)) (updateBodies (config (fst s)) dt (bodies (fst s)) (snd s))
                 else updateBodies (config (fst s)) dt (bodies (fst s)) (snd s))))"
  by (simp_all add: frameStep_def Let_def split_beta split: option.splits)

lemma frameStep_data:
  "simulationData (fst (snd (frameStep dt fr s))) =
     (case fst (frameStep dt fr s) of
        None \<Rightarrow> map2 (\<lambda>tr b. tr @ [sampleOf b fr dt]) (simulationData (fst s))
                 (bodies (fst (snd (frameStep dt fr s))))
      | Some x \<Rightarrow> simulationData (fst s))"
  by (simp add: frameStep_def Let_def split_beta split: option.splits)

lemma frameStep_map:
  assumes "\<And>st b w. f (fst (bodyStep st dt b w)) = f b" "collision_safe f" "joint_safe f"
  shows "map f (bodies (fst (snd (frameStep dt fr s)))) = map f (bodies (fst s))"
  by (simp add: frameStep_parts updateJoints_safe [OF assms(3)] collideAll_safe [OF assms(2)]
      updateBodies_map [of f, OF assms(1)])

lemma runFrames_parts:
  "config (fst (snd (runFrames dt fr n s))) = config (fst s)"
  "joints (fst (snd (runFrames dt fr n s))) = joints (fst s)"
  by (induction n arbitrary: fr s; simp add: frameStep_parts split: prod.splits option.splits;
      metis frameStep_parts fst_conv snd_conv)+

lemma runFrames_map:
  assumes "\<And>st b w. f (fst (bodyStep st dt b w)) = f b" "collision_safe f" "joint_safe f"
  shows "map f (bodies (fst (snd (runFrames dt fr n s)))) = map f (bodies (fst s))"
proof (induction n arbitrary: fr s)
  case 0
  then show ?case by simp
next
  case (Suc n)
  show ?case
  proof (cases "frameStep dt fr s")
    case (fields r e' w')
    have m: "map f (bodies e') = map f (bodies (fst s))"
      using frameStep_map [OF assms, of fr s] fields by simp
    show ?thesis
    proof (cases r)
      case None
      then show ?thesis using Suc.IH [of "Suc fr" "(e', w')"] fields m by simp
    next
      case (Some x)
      then show ?thesis using fields m by simp
    qed
  qed
qed

lemma map2_snoc_nth:
  assumes "i < length xs" "i < length ys"
  shows "map2 (\<lambda>tr b. tr @ [g b]) xs ys ! i = xs ! i @ [g (ys ! i)]"
  using assms by simp

lemma const_safe: "collision_safe (\<lambda>b. ())" "joint_safe (\<lambda>b. ())"
  by (simp_all add: collision_safe_def joint_safe_def)

lemma frameStep_length:
  "length (bodies (fst (snd (frameStep dt fr s)))) = length (bodies (fst s))"
  using frameStep_map [of "\<lambda>b. ()" dt fr s, OF _ const_safe] by (metis length_map)

lemma runFrames_length:
  "length (bodies (fst (snd (runFrames dt fr n s)))) = length (bodies (fst s))"
  using runFrames_map [of "\<lambda>b. ()" dt fr n s, OF _ const_safe] by (metis length_map)

lemma frameStep_data_length:
  assumes "length (simulationData (fst s)) = length (bodies (fst s))"
  shows "length (simulationData (fst (snd (frameStep dt fr s))))
           = length (bodies (fst (snd (frameStep dt fr s))))"
  using assms by (simp add: frameStep_data frameStep_length split: option.splits)

lemma frameStep_samples:
  assumes len: "length (simulationData (fst s)) = length (bodies (fst s))"
    and old: "\<forall>i < length (bodies (fst s)). \<forall>x \<in> set (simulationData (fst s) ! i). Q i x"
    and new: "\<And>i. fst (frameStep dt fr s) = None \<Longrightarrow> i < length (bodies (fst (snd (frameStep dt fr s))))
                \<Longrightarrow> Q i (sampleOf (bodies (fst (snd (frameStep dt fr s))) ! i) fr dt)"
  shows "\<forall>i < length (bodies (fst (snd (frameStep dt fr s)))).
           \<forall>x \<in> set (simulationData (fst (snd (frameStep dt fr s))) ! i). Q i x"
proof -
  have l: "length (bodies (fst (snd (frameStep dt fr s)))) = length (bodies (fst s))"
    by (rule frameStep_length)
  show ?thesis
  proof (cases "fst (frameStep dt fr s)")
    case None
    then show ?thesis
      using old new len l by (auto simp: frameStep_data)
  next
    case (Some x)
    then show ?thesis using old l by (simp add: frameStep_data)
  qed
qed

lemma runFrames_Suc:
  "runFrames dt fr (Suc n) s =
    (case fst (frameStep dt fr s) of
       None \<Rightarrow> runFrames dt (Suc fr) n (snd (frameStep dt fr s))
     | Some x \<Rightarrow> (Some x, snd (frameStep dt fr s)))"
  by (cases "frameStep dt fr s") (simp split: option.splits)

lemma runFrames_samples:
  assumes inv: "\<And>fr s. I s \<Longrightarrow> I (snd (frameStep dt fr s))"
    and new: "\<And>fr s i. I s \<Longrightarrow> fst (frameStep dt fr s) = None
                \<Longrightarrow> i < length (bodies (fst (snd (frameStep dt fr s))))
                \<Longrightarrow> Q i (sampleOf (bodies (fst (snd (frameStep dt fr s))) ! i) fr dt)"
    and "I s"
    and "length (simulationData (fst s)) = length (bodies (fst s))"
    and "\<forall>i < length (bodies (fst s)). \<forall>x \<in> set (simulationData (fst s) ! i). Q i x"
  shows "\<forall>i < length (bodies (fst (snd (runFrames dt fr n s)))).
           \<forall>x \<in> set (simulationData (fst (snd (runFrames dt fr n s))) ! i). Q i x"
  using assms(3-)
proof (induction n arbitrary: fr s)
  case 0
  then show ?case by simp
next
  case (Suc n)
  let ?s' = "snd (frameStep dt fr s)"
  have I': "I ?s'" using inv Suc.prems(1) by blast
  have len': "length (simulationData (fst ?s')) = length (bodies (fst ?s'))"
    using frameStep_data_length Suc.prems(2) by blast
  have Q': "\<forall>i < length (bodies (fst ?s')). \<forall>x \<in> set (simulationData (fst ?s') ! i). Q i x"
    using frameStep_samples [of s Q dt fr, OF Suc.prems(2,3)] new [OF Suc.prems(1)] by blast
  show ?case
  proof (cases "fst (frameStep dt fr s)")
    case None
    then have "runFrames dt fr (Suc n) s = runFrames dt (Suc fr) n ?s'"
      by (simp only: runFrames_Suc option.case)
    then show ?thesis using Suc.IH [OF I' len' Q'] by simp
  next
    case (Some x)
    then have "snd (runFrames dt fr (Suc n) s) = ?s'"
      by (simp only: runFrames_Suc option.case snd_conv)
    then show ?thesis using Q' by simp
  qed
qed

lemma simulate_parts:
  assumes "bodies e \<noteq> []"
  shows "fst (snd (simulate e w)) =
           (fst (snd (runFrames (deltaTimeOf (config e)) 0 (totalFrames (config e))
              (e\<lparr>isSimulating := True,
                 simulationData := replicate (length (bodies e)) [],
                 contactData := replicate (length (bodies e)) []\<rparr>, w))))\<lparr>isSimulating := False\<rparr>"
  using assms by (simp add: simulate_def Let_def split_beta)

lemma anchored_step: "anchored (fst (bodyStep st dt b w)) = anchored b"
  by (rule anchored_bodyStep)

lemma simulate_anchored: "map anchored (bodies (fst (snd (simulate e w)))) = map anchored (bodies e)"
proof (cases "bodies e = []")
  case True
  then show ?thesis by (simp add: simulate_def)
next
  case False
  then show ?thesis
    using runFrames_map [of anchored, OF anchored_bodyStep collision_safe_anchored joint_safe_anchored]
    by (simp add: simulate_parts)
qed

lemma simulate_static_samples:
  assumes "i < length (bodies e)" "btype (bodies e ! i) = Static"
  shows "\<forall>x \<in> set (simulationData (fst (snd (simulate e w))) ! i).
           s_position x = position (bodies e ! i) \<and> s_rotation x = rotation (bodies e ! i)"
proof -
  define A where "A = map anchored (bodies e)"
  define I where "I = (\<lambda>s :: engine \<times> world. map anchored (bodies (fst s)) = A)"
  define Q where "Q = (\<lambda>i (x :: sample). fst (A ! i) = Static \<longrightarrow> snd (A ! i) = Some (s_position x, s_rotation x))"
  let ?e1 = "e\<lparr>isSimulating := True, simulationData := replicate (length (bodies e)) [],
               contactData := replicate (length (bodies e)) []\<rparr>"
  let ?r = "runFrames (deltaTimeOf (config e)) 0 (totalFrames (config e)) (?e1, w)"
  have ne: "bodies e \<noteq> []" using assms(1) by auto
  have inv: "\<And>fr s. I s \<Longrightarrow> I (snd (frameStep (deltaTimeOf (config e)) fr s))"
    unfolding I_def
    using frameStep_map [of anchored, OF anchored_bodyStep collision_safe_anchored joint_safe_anchored]
    by simp
  have new: "\<And>fr s i. I s \<Longrightarrow> fst (frameStep (deltaTimeOf (config e)) fr s) = None
      \<Longrightarrow> i < length (bodies (fst (snd (frameStep (deltaTimeOf (config e)) fr s))))
      \<Longrightarrow> Q i (sampleOf (bodies (fst (snd (frameStep (deltaTimeOf (config e)) fr s))) ! i) fr (deltaTimeOf (config e)))"
  proof -
    fix fr s i
    assume a: "I s" "i < length (bodies (fst (snd (frameStep (deltaTimeOf (config e)) fr s))))"
    have "map anchored (bodies (fst (snd (frameStep (deltaTimeOf (config e)) fr s)))) = A"
      using inv a(1) by (simp add: I_def)
    then have "A ! i = anchored (bodies (fst (snd (frameStep (deltaTimeOf (config e)) fr s))) ! i)"
      using a(2) by (metis nth_map)
    then show "Q i (sampleOf (bodies (fst (snd (frameStep (deltaTimeOf (config e)) fr s))) ! i) fr (deltaTimeOf (config e)))"
      by (simp add: Q_def anchored_def sampleOf_def)
  qed
  have "\<forall>i < length (bodies (fst (snd ?r))). \<forall>x \<in> set (simulationData (fst (snd ?r)) ! i). Q i x"
    by (rule runFrames_samples [where I = I and Q = Q and dt = "deltaTimeOf (config e)", OF inv new])
       (simp_all add: I_def A_def)
  moreover have "length (bodies (fst (snd ?r))) = length (bodies e)"
    by (simp add: runFrames_length)
  ultimately have "\<forall>x \<in> set (simulationData (fst (snd ?r)) ! i). Q i x"
    using assms(1) by simp
  moreover have "A ! i = (Static, Some (position (bodies e ! i), rotation (bodies e ! i)))"
    using assms by (simp add: A_def anchored_def)
  ultimately have "\<forall>x \<in> set (simulationData (fst (snd ?r)) ! i).
      s_position x = position (bodies e ! i) \<and> s_rotation x = rotation (bodies e ! i)"
    by (simp add: Q_def)
  then show ?thesis by (simp add: simulate_parts [OF ne])
qed

subsection \<open>The steps of the body loop on a body at rest\<close>

lemma updatePosition_sleeping: "isSleeping b \<Longrightarrow> updatePosition b dt = b"
  by (simp add: updatePosition_def)

lemma applyGravity_keeps:
  "isSleeping (applyGravity b g dt) = isSleeping b"
  "isGrounded (applyGravity b g dt) = isGrounded b"
  "velocity (applyGravity b g dt) = velocity b"
  "angularVelocity (applyGravity b g dt) = angularVelocity b"
  "position (applyGravity b g dt) = position b"
  "rotation (applyGravity b g dt) = rotation b"
  by (simp_all add: applyGravity_def)

lemma applyDamping_keeps:
  "isSleeping (applyDamping b d) = isSleeping b"
  "isGrounded (applyDamping b d) = isGrounded b"
  "acceleration (applyDamping b d) = acceleration b"
  "position (applyDamping b d) = position b"
  "rotation (applyDamping b d) = rotation b"
  by (simp_all add: applyDamping_def Let_def)

lemma applyDamping_rest:
  "velocity b = (0, 0) \<Longrightarrow> velocity (applyDamping b d) = (0, 0)"
  "angularVelocity b = 0 \<Longrightarrow> angularVelocity (applyDamping b d) = 0"
  by (simp_all add: applyDamping_def Let_def)

lemma updateSleepState_keeps:
  "acceleration (updateSleepState b dt) = acceleration b"
  "position (updateSleepState b dt) = position b"
  "rotation (updateSleepState b dt) = rotation b"
  "isGrounded (updateSleepState b dt) = isGrounded b"
  by (simp_all add: updateSleepState_def Let_def)

lemma updateSleepState_rest:
  assumes "velocity b = (0, 0)" "angularVelocity b = 0" "isSleeping b"
  shows "velocity (updateSleepState b dt) = (0, 0)" "angularVelocity (updateSleepState b dt) = 0"
    "isSleeping (updateSleepState b dt)"
  using assms by (simp_all add: updateSleepState_def Let_def)

lemma floorResponse_keeps:
  "acceleration (fst (floorResponse b gb w)) = acceleration b"
  "position (fst (floorResponse b gb w)) = position b"
  "rotation (fst (floorResponse b gb w)) = rotation b"
  "isSleeping (fst (floorResponse b gb w)) = isSleeping b"
  by (simp_all add: floorResponse_def Let_def split_beta Date_now_def Math_random_def)

lemma groundFriction_keeps:
  "acceleration (groundFriction b) = acceleration b"
  "position (groundFriction b) = position b"
  "rotation (groundFriction b) = rotation b"
  "isSleeping (groundFriction b) = isSleeping b"
  "isGrounded (groundFriction b) = isGrounded b"
  by (simp_all add: groundFriction_def Let_def)

lemma groundFriction_rest:
  "velocity b = (0, 0) \<Longrightarrow> velocity (groundFriction b) = (0, 0)"
  "angularVelocity b = 0 \<Longrightarrow> angularVelocity (groundFriction b) = 0"
  by (simp_all add: groundFriction_def Let_def)

lemma checkFloorCollision_keeps:
  "acceleration (fst (checkFloorCollision b fy gb st w)) = acceleration b"
  "rotation (fst (checkFloorCollision b fy gb st w)) = rotation b"
  "isSleeping (fst (checkFloorCollision b fy gb st w)) = isSleeping b"
  by (simp_all add: checkFloorCollision_def Let_def split_beta floorResponse_keeps
      groundFriction_keeps)

text \<open>Without a downward velocity the floor step only clamps the position.\<close>

lemma checkFloorCollision_no_response:
  assumes "\<not> snd (velocity b) > 0"
  shows "checkFloorCollision b fy gb st w =
    (if btype b = Static then (b, w)
     else if bottomEdge b \<ge> fy - tolerance st
          then (groundFriction (b\<lparr>position := (fst (position b), fy - height b / 2)\<rparr>), w)
          else (b\<lparr>isGrounded := False\<rparr>, w))"
  using assms by (simp add: checkFloorCollision_def Let_def bottomEdge_def)

lemma checkFloorCollision_rest:
  assumes "velocity b = (0, 0)" "angularVelocity b = 0"
  shows "velocity (fst (checkFloorCollision b fy gb st w)) = (0, 0)"
    "angularVelocity (fst (checkFloorCollision b fy gb st w)) = 0"
    "snd (checkFloorCollision b fy gb st w) = w"
proof -
  have nr: "\<not> snd (velocity b) > 0" using assms(1) by simp
  show "velocity (fst (checkFloorCollision b fy gb st w)) = (0, 0)"
    "angularVelocity (fst (checkFloorCollision b fy gb st w)) = 0"
    "snd (checkFloorCollision b fy gb st w) = w"
    using assms
    by (simp_all add: checkFloorCollision_no_response [OF nr] groundFriction_rest)
qed

lemma checkFloorCollision_rest_grounded:
  assumes "velocity b = (0, 0)" "isGrounded (fst (checkFloorCollision b fy gb st w))"
  shows "isGrounded b"
proof -
  have nr: "\<not> snd (velocity b) > 0" using assms(1) by simp
  show ?thesis
    using assms(2)
    by (simp add: checkFloorCollision_no_response [OF nr] groundFriction_keeps split: if_splits)
qed

lemma checkFloorCollision_rest_position:
  assumes "velocity b = (0, 0)"
    and "bottomEdge b < fy - tolerance st \<or> bottomEdge b = fy"
  shows "position (fst (checkFloorCollision b fy gb st w)) = position b"
proof -
  have nr: "\<not> snd (velocity b) > 0" using assms(1) by simp
  show ?thesis
  proof (cases "bottomEdge b \<ge> fy - tolerance st")
    case True
    then have "bottomEdge b = fy" using assms(2) by linarith
    then have "fy - height b / 2 = snd (position b)" by (simp add: bottomEdge_def)
    then show ?thesis
      by (simp add: checkFloorCollision_no_response [OF nr] groundFriction_keeps)
  next
    case False
    then show ?thesis by (simp add: checkFloorCollision_no_response [OF nr])
  qed
qed

text \<open>The body loop on a sleeping body at rest.\<close>

lemma bodyStep_sleeping_rest:
  assumes "isSleeping b" "velocity b = (0, 0)" "angularVelocity b = 0"
  shows "isSleeping (fst (bodyStep st dt b w))" "velocity (fst (bodyStep st dt b w)) = (0, 0)"
    "angularVelocity (fst (bodyStep st dt b w)) = 0"
    "rotation (fst (bodyStep st dt b w)) = rotation b"
    "isGrounded (fst (bodyStep st dt b w)) \<Longrightarrow> isGrounded b"
    "snd (bodyStep st dt b w) = w"
proof -
  let ?b2 = "applyDamping (applyGravity (b\<lparr>contacts := []\<rparr>) (gravityVector st) dt) (damping st)"
  let ?b4 = "fst (checkFloorCollision ?b2 (floorY st) (bounce st) st w)"
  have s2: "isSleeping ?b2" using assms(1) by (simp add: applyDamping_keeps applyGravity_keeps)
  have up: "updatePosition ?b2 dt = ?b2" using s2 by (rule updatePosition_sleeping)
  have v2: "velocity ?b2 = (0, 0)" "angularVelocity ?b2 = 0"
    using assms(2,3) by (simp_all add: applyDamping_rest applyGravity_keeps)
  have r2: "rotation ?b2 = rotation b" "isGrounded ?b2 = isGrounded b"
    by (simp_all add: applyDamping_keeps applyGravity_keeps)
  have v4: "velocity ?b4 = (0, 0)" "angularVelocity ?b4 = 0" "isSleeping ?b4"
    "rotation ?b4 = rotation b"
    using v2 s2 r2 by (simp_all add: checkFloorCollision_rest checkFloorCollision_keeps)
  have g4: "isGrounded ?b4 \<Longrightarrow> isGrounded b"
    using checkFloorCollision_rest_grounded [OF v2(1), of "floorY st" "bounce st" st w] r2 by simp
  have f: "fst (bodyStep st dt b w) = (if enableSleeping st then updateSleepState ?b4 dt else ?b4)"
    by (simp add: bodyStep_fst Let_def up)
  show "isSleeping (fst (bodyStep st dt b w))" "velocity (fst (bodyStep st dt b w)) = (0, 0)"
    "angularVelocity (fst (bodyStep st dt b w)) = 0"
    "rotation (fst (bodyStep st dt b w)) = rotation b"
    using v4 by (simp_all add: f updateSleepState_rest updateSleepState_keeps)
  show "isGrounded (fst (bodyStep st dt b w)) \<Longrightarrow> isGrounded b"
    using g4 by (cases "enableSleeping st") (simp_all add: f updateSleepState_keeps)
  show "snd (bodyStep st dt b w) = w"
    using v2 by (simp add: bodyStep_snd up checkFloorCollision_rest)
qed

lemma bodyStep_sleeping_position:
  assumes "isSleeping b" "velocity b = (0, 0)"
    and "bottomEdge b < floorY st - tolerance st \<or> bottomEdge b = floorY st"
  shows "position (fst (bodyStep st dt b w)) = position b"
proof -
  let ?b2 = "applyDamping (applyGravity (b\<lparr>contacts := []\<rparr>) (gravityVector st) dt) (damping st)"
  have s2: "isSleeping ?b2" using assms(1) by (simp add: applyDamping_keeps applyGravity_keeps)
  have up: "updatePosition ?b2 dt = ?b2" using s2 by (rule updatePosition_sleeping)
  have v2: "velocity ?b2 = (0, 0)"
    using assms(2) by (simp add: applyDamping_rest applyGravity_keeps)
  have p2: "position ?b2 = position b" by (simp add: applyDamping_keeps applyGravity_keeps)
  have "params ?b2 = params (b\<lparr>contacts := []\<rparr>)"
    by (simp add: params_applyDamping params_applyGravity)
  then have "height ?b2 = height b" by (simp add: params_def)
  then have e2: "bottomEdge ?b2 = bottomEdge b" using p2 by (simp add: bottomEdge_def)
  have "position (fst (checkFloorCollision ?b2 (floorY st) (bounce st) st w)) = position ?b2"
    using v2 assms(3) e2 by (intro checkFloorCollision_rest_position) simp_all
  then show ?thesis
    by (simp add: bodyStep_fst Let_def up updateSleepState_keeps p2)
qed

subsection \<open>Evaluating a run\<close>

lemma sqrt_302500: "sqrt 302500 = 550"
  using real_sqrt_abs2 [of 550] by simp

lemmas run_defs =
  simulate_def totalFrames_def deltaTimeOf_def DEFAULT_SETTINGS_def
  frameStep_def bodyStep_def box_def applyGravity_def applyDamping_def updatePosition_def
  checkFloorCollision_def updateSleepState_def floorResponse_def groundFriction_def tolerance_def
  Date_now_def Math_random_def world0_def Let_def
  updateJoint_def updateDistanceJoint_def onBodies_def distanceJoint_def deref_def
  sampleOf_def contactFrameOf_def sqrt_less_numeral
  collideAll_def collisionPairs_def collidePair_def checkBodyCollision_def boxesOverlap_def

lemma sqrt_360000: "sqrt 360000 = 600"
  using real_sqrt_abs2 [of 600] by simp

lemma dropOne_run:
  "fst (simulate dropOne world0)"
  "bodies (fst (snd (simulate dropOne world0)))
     = [(box Dynamic (0, 950))\<lparr>restitution := 0, isGrounded := True, isSleeping := True,
                                sleepTimer := 2, contactCount := 1\<rparr>]"
  "simulationData (fst (snd (simulate dropOne world0)))
     = [[\<lparr>s_position = (0, 950), s_rotation = 0, s_time = 0, s_sleeping = False\<rparr>,
         \<lparr>s_position = (0, 950), s_rotation = 0, s_time = 1, s_sleeping = True\<rparr>]]"
  by (simp_all add: dropOne_def run_defs eval_nat_numeral)

lemma pulledAsleep_run:
  "fst (simulate pulledAsleep world0)"
  "bodies (fst (snd (simulate pulledAsleep world0)))
     = [box Static (0, 1500), (box Dynamic (0, 1175))\<lparr>isSleeping := True, sleepTimer := 2\<rparr>]"
  "simulationData (fst (snd (simulate pulledAsleep world0)))
     = [[\<lparr>s_position = (0, 1500), s_rotation = 0, s_time = 0, s_sleeping = False\<rparr>,
         \<lparr>s_position = (0, 1500), s_rotation = 0, s_time = 1, s_sleeping = False\<rparr>],
        [\<lparr>s_position = (0, 1150), s_rotation = 0, s_time = 0, s_sleeping = False\<rparr>,
         \<lparr>s_position = (0, 1175), s_rotation = 0, s_time = 1, s_sleeping = True\<rparr>]]"
  by (simp_all add: pulledAsleep_def pulledBelow_def run_defs eval_nat_numeral sqrt_360000 sqrt_302500)


section \<open>Properties\<close>

subsection \<open>Floor collision\<close>










subsection \<open>Floor containment\<close>




















subsection \<open>Mass\<close>

lemma box_is_createBody:
  "fst (createBody materials
         \<lparr>l_width = 100, l_height = 100, l_position = p, l_rotation = 0, l_scale = (100, 100)\<rparr>
         DEFAULT_SETTINGS (Some k) w)
     = (box k p)\<lparr>bid := clock w (now_used w) + randoms w (rnd_used w)\<rparr>"
  by (simp add: createBody_def materialProps_def materials_def DEFAULT_SETTINGS_def box_def
      pixelsToMeters_def Date_now_def Math_random_def)

lemma simulate_params: "map params (bodies (fst (snd (simulate e w)))) = map params (bodies e)"
proof (cases "bodies e = []")
  case True
  then show ?thesis by (simp add: simulate_def)
next
  case False
  then show ?thesis
    by (simp add: simulate_parts
        runFrames_map [of params, OF params_bodyStep collision_safe_params joint_safe_params])
qed

lemma simulate_mass: "map mass (bodies (fst (snd (simulate e w)))) = map mass (bodies e)"
proof -
  have "mass = (\<lambda>p. fst (fst (snd p))) \<circ> params" by (rule ext) (simp add: params_def)
  then have "map mass bs = map (\<lambda>p. fst (fst (snd p))) (map params bs)" for bs by simp
  then show ?thesis by (simp only: simulate_params)
qed

text \<open>
  C3, as the claim states it, fails for \<^verbatim>\<open>calculateMass\<close> of the Final variant, which
  has no density and no minimum of 0.1: the mass is the larger of 1 and the area in
  pixels over 10000. A layer of 50 by 50 pixels at scale 100 percent gets the mass 1
  there, and a layer of width zero as well, where the Enhanced variant gives 1/4 (a
  quarter of a scene unit of area, at density 1) and 1/10.
\<close>

theorem calculateMass_final_differs:
  "calculateMass_final
     \<lparr>l_width = 50, l_height = 50, l_position = (0, 0), l_rotation = 0, l_scale = (100, 100)\<rparr> = 1
   \<and> mass (fst (createBody materials
        \<lparr>l_width = 50, l_height = 50, l_position = (0, 0), l_rotation = 0, l_scale = (100, 100)\<rparr>
        DEFAULT_SETTINGS None world0)) = 1/4
   \<and> calculateMass_final
        \<lparr>l_width = 0, l_height = 50, l_position = (0, 0), l_rotation = 0, l_scale = (100, 100)\<rparr> = 1
   \<and> mass (fst (createBody materials
        \<lparr>l_width = 0, l_height = 50, l_position = (0, 0), l_rotation = 0, l_scale = (100, 100)\<rparr>
        DEFAULT_SETTINGS None world0)) = 1/10"
  by (simp add: calculateMass_final_def createBody_def materialProps_def materials_def
      DEFAULT_SETTINGS_def pixelsToMeters_def Date_now_def Math_random_def world0_def)

text \<open>
  C3, amended. The body that \<^verbatim>\<open>createBody\<close> of the Enhanced variant builds has the mass
  \<open>max (area \<times> density) 0.1\<close>, for every layer size, scale and table of materials: the
  area is that of the scaled layer in scene units (100 pixels to the unit), the density
  that of the material of the settings, or of the material \<^verbatim>\<open>default\<close> when the table
  does not have it; the densities of the built-in table are 0.9, 7.8, 0.6, 0.92, 2.4, 2.5
  and 1. A layer of width or height zero gets the mass 0.1. In the Final variant the
  mass is \<open>max 1 (area / 10000)\<close>, the area being that of the scaled layer in pixels. In
  both variants the mass is positive, and a run of the Enhanced variant leaves the mass
  of every body as it is.
\<close>

theorem createBody_mass:
  "mass (fst (createBody table l st k w))
     = max (l_width l * fst (l_scale l) / 100 / 100 * (l_height l * snd (l_scale l) / 100 / 100)
            * m_density (materialProps table st)) (1/10)
   \<and> map (\<lambda>m. m_density (materialProps materials (st\<lparr>material := m\<rparr>)))
        [''rubber'', ''metal'', ''wood'', ''ice'', ''concrete'', ''glass'', ''default'', ''steel'']
       = [9/10, 78/10, 6/10, 92/100, 24/10, 25/10, 1, 1]
   \<and> m_density (materialProps (\<lambda>m. if m = ''default'' then Some p else None) st) = m_density p
   \<and> mass (fst (createBody table l st k w)) > 0
   \<and> mass (fst (createBody table (l\<lparr>l_width := 0\<rparr>) st k w)) = 1/10
   \<and> mass (fst (createBody table (l\<lparr>l_height := 0\<rparr>) st k w)) = 1/10
   \<and> calculateMass_final l
       = max 1 (l_width l * l_height l * (fst (l_scale l) / 100) * (snd (l_scale l) / 100) / 10000)
   \<and> calculateMass_final l > 0
   \<and> map mass (bodies (fst (snd (simulate e w')))) = map mass (bodies e)"
proof -
  have m: "mass (fst (createBody table l st k w))
     = max (l_width l * fst (l_scale l) / 100 / 100 * (l_height l * snd (l_scale l) / 100 / 100)
            * m_density (materialProps table st)) (1/10)" for l
    by (simp add: createBody_def Let_def Date_now_def Math_random_def pixelsToMeters_def split_beta)
  have d: "map (\<lambda>m. m_density (materialProps materials (st\<lparr>material := m\<rparr>)))
        [''rubber'', ''metal'', ''wood'', ''ice'', ''concrete'', ''glass'', ''default'', ''steel'']
       = [9/10, 78/10, 6/10, 92/100, 24/10, 25/10, 1, 1]"
    by (simp add: materialProps_def materials_def)
  have f: "m_density (materialProps (\<lambda>m. if m = ''default'' then Some p else None) st) = m_density p"
    by (simp add: materialProps_def)
  have c: "calculateMass_final l
       = max 1 (l_width l * l_height l * (fst (l_scale l) / 100) * (snd (l_scale l) / 100) / 10000)"
    by (simp add: calculateMass_final_def Let_def)
  have c0: "calculateMass_final l > 0" unfolding c by simp
  show ?thesis
    using m [of l] m [of "l\<lparr>l_width := 0\<rparr>"] m [of "l\<lparr>l_height := 0\<rparr>"] d f c c0 simulate_mass [of e w']
    by simp
qed

theorem createBody_mass_witness:
  "mass (fst (createBody materials
      \<lparr>l_width = 200, l_height = 100, l_position = (0, 0), l_rotation = 0, l_scale = (100, 50)\<rparr>
      (DEFAULT_SETTINGS\<lparr>material := ''metal''\<rparr>) None world0)) = 78/10
   \<and> calculateMass_final
      \<lparr>l_width = 200, l_height = 100, l_position = (0, 0), l_rotation = 0, l_scale = (100, 50)\<rparr> = 1"
  using createBody_mass [of materials
      "\<lparr>l_width = 200, l_height = 100, l_position = (0, 0), l_rotation = 0, l_scale = (100, 50)\<rparr>"
      "DEFAULT_SETTINGS\<lparr>material := ''metal''\<rparr>" None world0]
  by (simp add: materialProps_def materials_def DEFAULT_SETTINGS_def)

subsection \<open>Sleeping bodies\<close>

text \<open>
  What does hold for a sleeping body. In the Enhanced variant it is not integrated
  (\<^verbatim>\<open>updatePosition\<close> returns at once), and if it is at rest, as the sleep update left it,
  with its bottom edge either on the floor or above the contact zone of the floor, the
  body loop of the frame leaves its position, rotation and velocities unchanged. In the
  main module a sleeping body is skipped by the whole loop body, and the sample stored
  for the frame is its pose.
\<close>

lemma sleeping_body_at_rest_keeps_pose:
  assumes "isSleeping b" and "velocity b = (0, 0)" and "angularVelocity b = 0"
    and "bottomEdge b < floorY st - tolerance st \<or> bottomEdge b = floorY st"
  shows "updatePosition b dt = b
       \<and> position (fst (bodyStep st dt b w)) = position b
       \<and> rotation (fst (bodyStep st dt b w)) = rotation b
       \<and> velocity (fst (bodyStep st dt b w)) = velocity b
       \<and> angularVelocity (fst (bodyStep st dt b w)) = angularVelocity b"
  using assms bodyStep_sleeping_rest [OF assms(1,2,3), of st dt w]
    bodyStep_sleeping_position [OF assms(1,2,4), of dt w]
  by (simp add: updatePosition_sleeping)

lemma sleeping_body_skipped_modular:
  assumes "enableSleeping st" and "mb_isSleeping mb"
  shows "simulateBody_modular st dt fr mb w = ((mb, msampleOf mb fr dt), w)"
  using assms by (simp add: simulateBody_modular_def)

text \<open>
  Every frame of the Enhanced variant that completes appends, to the trajectory of every
  body, a sample of the pose that the body has at the end of the frame.
\<close>

lemma frameStep_appends_sample:
  assumes "fst (frameStep dt fr s) = None"
    and "length (simulationData (fst s)) = length (bodies (fst s))"
    and "i < length (bodies (fst s))"
  shows "simulationData (fst (snd (frameStep dt fr s))) ! i
           = simulationData (fst s) ! i @ [sampleOf (bodies (fst (snd (frameStep dt fr s))) ! i) fr dt]"
  using assms by (simp add: frameStep_data frameStep_length)

text \<open>
  C4. A body that is asleep at the start of a frame is to keep its position, rotation and
  velocities through the gravity, integration and floor steps of the frame. In the
  Enhanced variant only the integration step tests \<^verbatim>\<open>isSleeping\<close>. In the run
  \<open>pulledAsleep\<close> the body is asleep after two frames and the joint has left it at
  \<open>(0, 1175)\<close>; the body loop of the next frame, through its floor step, moves it to
  \<open>(0, 950)\<close>. The loop of the main module skips a sleeping body and leaves it there.
\<close>

theorem sleeping_body_moved_by_floor_step:
  "isSleeping (bodies (fst (snd (simulate pulledAsleep world0))) ! 1)
   \<and> position (bodies (fst (snd (simulate pulledAsleep world0))) ! 1) = (0, 1175)
   \<and> position (fst (bodyStep (config pulledAsleep) (deltaTimeOf (config pulledAsleep))
                       (bodies (fst (snd (simulate pulledAsleep world0))) ! 1)
                       (snd (snd (simulate pulledAsleep world0))))) = (0, 950)
   \<and> position (fst (checkFloorCollision (bodies (fst (snd (simulate pulledAsleep world0))) ! 1)
                       (floorY (config pulledAsleep)) (bounce (config pulledAsleep))
                       (config pulledAsleep) world0)) = (0, 950)
   \<and> mb_position (fst (fst (simulateBody_modular (config pulledAsleep) 1 2
                       ((box_modular (0, 1175))\<lparr>mb_isSleeping := True\<rparr>) world0))) = (0, 1175)"
  by (simp add: pulledAsleep_run)
     (simp add: pulledAsleep_def pulledBelow_def bodyStep_def box_def DEFAULT_SETTINGS_def
        deltaTimeOf_def applyGravity_def applyDamping_def updatePosition_def
        checkFloorCollision_def groundFriction_def updateSleepState_def tolerance_def Let_def
        simulateBody_modular_def box_modular_def)

subsection \<open>Static bodies\<close>

lemma distanceJoint_nondynamic:
  "btype a \<noteq> Dynamic \<Longrightarrow> fst (distanceJoint j a b) = a"
  "btype b \<noteq> Dynamic \<Longrightarrow> snd (distanceJoint j a b) = b"
  by (simp_all add: distanceJoint_def Let_def)

text \<open>
  C5. A static body has, after a run of \<^verbatim>\<open>simulate\<close> (body loop, floor collision,
  collisions between bodies and all joint updates of every frame), the position and the
  rotation it had before, and every sample recorded for it holds that pose. The distance
  joint gives no correction to a body that is not dynamic: a static or kinematic body
  comes out of \<^verbatim>\<open>updateDistanceJoint\<close> as it went in, on either side of the joint.
\<close>

theorem static_bodies_never_move:
  assumes "i < length (bodies e)" and "btype (bodies e ! i) = Static"
    and "btype a \<noteq> Dynamic" and "btype b \<noteq> Dynamic"
  shows "position (bodies (fst (snd (simulate e w))) ! i) = position (bodies e ! i)
       \<and> rotation (bodies (fst (snd (simulate e w))) ! i) = rotation (bodies e ! i)
       \<and> (\<forall>x \<in> set (simulationData (fst (snd (simulate e w))) ! i).
             s_position x = position (bodies e ! i) \<and> s_rotation x = rotation (bodies e ! i))
       \<and> fst (distanceJoint j a c) = a \<and> snd (distanceJoint j c b) = b"
proof -
  have "map anchored (bodies (fst (snd (simulate e w)))) ! i = map anchored (bodies e) ! i"
    by (simp add: simulate_anchored)
  moreover have "length (bodies (fst (snd (simulate e w)))) = length (bodies e)"
    using simulate_anchored [of e w] by (metis length_map)
  ultimately have "anchored (bodies (fst (snd (simulate e w))) ! i) = anchored (bodies e ! i)"
    using assms(1) by simp
  then have "position (bodies (fst (snd (simulate e w))) ! i) = position (bodies e ! i)
       \<and> rotation (bodies (fst (snd (simulate e w))) ! i) = rotation (bodies e ! i)"
    using assms(2) by (simp add: anchored_def split: if_splits)
  then show ?thesis
    using simulate_static_samples [OF assms(1,2), of w] distanceJoint_nondynamic assms(3,4)
    by simp
qed

theorem static_bodies_never_move_witness:
  "0 < length (bodies pulledBelow) \<and> btype (bodies pulledBelow ! 0) = Static
   \<and> btype (box Static (0, 1500)) \<noteq> Dynamic \<and> btype (box Kinematic (0, 0)) \<noteq> Dynamic
   \<and> position (bodies (fst (snd (simulate pulledBelow world0))) ! 0) = (0, 1500)
   \<and> rotation (bodies (fst (snd (simulate pulledBelow world0))) ! 0) = 0
   \<and> fst (distanceJoint (joints pulledBelow ! 0) (box Static (0, 1500)) (box Dynamic (0, 900)))
       = box Static (0, 1500)
   \<and> snd (distanceJoint (joints pulledBelow ! 0) (box Dynamic (0, 900)) (box Kinematic (0, 0)))
       = box Kinematic (0, 0)"
  using static_bodies_never_move [of 0 pulledBelow "box Static (0, 1500)" "box Kinematic (0, 0)"
      world0 "joints pulledBelow ! 0" "box Dynamic (0, 900)"]
  by (simp add: pulledBelow_def box_def)

subsection \<open>Joint creation\<close>

text \<open>
  What the functions that create a joint from two body indices do refuse. \<^verbatim>\<open>addJoint\<close>
  of the Enhanced variant reports an error, returns \<^verbatim>\<open>null\<close> and adds nothing when an
  index is at or beyond the number of bodies; \<^verbatim>\<open>createJoint\<close> of the main module
  returns \<^verbatim>\<open>false\<close> and \<^verbatim>\<open>createJoint\<close> of the Final variant returns \<^verbatim>\<open>null\<close>, without
  adding a joint, for every index that has no body, negative ones included.
\<close>

lemma joint_index_beyond_bodies_rejected:
  assumes "a \<ge> int (length (bodies e)) \<or> b \<ge> int (length (bodies e))"
    and "ma < 0 \<or> mb < 0 \<or> ma \<ge> int (length mbs) \<or> mb \<ge> int (length mbs)"
    and "fa < 0 \<or> fb < 0 \<or> fa \<ge> int (length fbs) \<or> fb \<ge> int (length fbs)"
  shows "addJoint e a b jt opts w = (Inl InvalidBodyIndices, e, w)
       \<and> isl (fst (createJoint_modular mbs mjs ma mb jt opts))
       \<and> snd (createJoint_modular mbs mjs ma mb jt opts) = mjs
       \<and> createJoint_final fbs fjs fa fb fjt opts = (None, fjs)"
  using assms
  by (auto simp: addJoint_def createJoint_modular_def createJoint_final_def)

text \<open>
  C6. Joint creation with invalid body indices is to be rejected with an error, with no
  joint added. None of the three functions compares the two indices, and \<^verbatim>\<open>addJoint\<close>
  has no lower bound: on an engine with one body, \<^verbatim>\<open>addJoint(0, 0, 'spring')\<close> returns a
  joint of the body with itself and adds it to the collection; \<^verbatim>\<open>addJoint(-1, 0, 'spring')\<close>
  pushes a joint whose first body is \<^verbatim>\<open>undefined\<close> and then throws in its log line, so
  the joint stays in the collection; \<^verbatim>\<open>createJoint(0, 0)\<close> of the Final variant and of the
  main module return a joint of the body with itself and add it.
\<close>

theorem addJoint_equal_indices_accepted:
  "fst (addJoint (engine0 [box Dynamic (0, 0)] []) 0 0 Spring noOptions world0)
     = Inr \<lparr>jid = 1/2, jtype = Spring, bodyA = Some 0, bodyB = Some 0, anchorA = (0, 0),
            anchorB = (0, 0), targetDistance = 0, stiffness = 1, jdamping = 1/10\<rparr>
   \<and> length (joints (fst (snd (addJoint (engine0 [box Dynamic (0, 0)] []) 0 0 Spring
                                 noOptions world0)))) = 1
   \<and> fst (addJoint (engine0 [box Dynamic (0, 0)] []) (- 1) 0 Spring noOptions world0)
       = Inl TypeError
   \<and> joints (fst (snd (addJoint (engine0 [box Dynamic (0, 0)] []) (- 1) 0 Spring noOptions world0)))
       = [\<lparr>jid = 1/2, jtype = Spring, bodyA = None, bodyB = Some 0, anchorA = (0, 0),
            anchorB = (0, 0), targetDistance = 0, stiffness = 1, jdamping = 1/10\<rparr>]
   \<and> createJoint_final [box_final 0 (0, 0)] [] 0 0 None noOptions
       = (Some \<lparr>jf_id = 0, jf_bodyA = 0, jf_bodyB = 0, jf_type = Distance, jf_stiffness = 1,
                jf_damping = 1/10, jf_restLength = 0\<rparr>,
          [\<lparr>jf_id = 0, jf_bodyA = 0, jf_bodyB = 0, jf_type = Distance, jf_stiffness = 1,
            jf_damping = 1/10, jf_restLength = 0\<rparr>])
   \<and> createJoint_modular [box_modular (0, 0)] [] 0 0 Distance noOptions
       = (Inr \<lparr>mj_type = Distance, mj_bodyA = 0, mj_bodyB = 0, mj_damping = 1/10,
               mj_strength = 1, mj_targetDistance = 0, mj_lastDistance = 0\<rparr>,
          [\<lparr>mj_type = Distance, mj_bodyA = 0, mj_bodyB = 0, mj_damping = 1/10,
            mj_strength = 1, mj_targetDistance = 0, mj_lastDistance = 0\<rparr>])"
  by (simp add: addJoint_def engine0_def createJoint_def bodyRef_def deref_def Date_now_def
      Math_random_def world0_def js_or_def noOptions_def Let_def createJoint_final_def
      calculateDistance_final_def box_final_def createJoint_modular_def
      jointDefaults_modular_def calculateDistance_modular_def box_modular_def)

subsection \<open>Division by a zero distance\<close>

text \<open>
  C7. Two bodies of the Final variant with the same centre, joined by the distance joint
  that \<^verbatim>\<open>createJoint(0, 1)\<close> builds for them: \<^verbatim>\<open>updateJoints\<close> divides by the zero
  distance between them.
\<close>

theorem updateJoints_final_divides_by_zero:
  "fst (createJoint_final [box_final 0 (0, 0), box_final 1 (0, 0)] [] 0 1 None noOptions)
     = Some \<lparr>jf_id = 0, jf_bodyA = 0, jf_bodyB = 1, jf_type = Distance, jf_stiffness = 1,
             jf_damping = 1/10, jf_restLength = 0\<rparr>
   \<and> updateJoints_final
        [\<lparr>jf_id = 0, jf_bodyA = 0, jf_bodyB = 1, jf_type = Distance, jf_stiffness = 1,
          jf_damping = 1/10, jf_restLength = 0\<rparr>]
        [box_final 0 (0, 0), box_final 1 (0, 0)] = None"
  by (simp add: createJoint_final_def calculateDistance_final_def box_final_def js_or_def
      noOptions_def updateJoint_final_def js_div_def Let_def)

text \<open>
  The Enhanced variant tests the distance before it divides: with coincident centres the
  collision response and the distance and spring joints leave both bodies as they are.
\<close>

lemma coincident_centres_skipped:
  assumes "position a = position b"
  shows "resolveCollision a b st w = (a, b, w)"
    and "distanceJoint j a b = (a, b)" and "springJoint j a b = (a, b)"
  using assms by (simp_all add: resolveCollision_def distanceJoint_def springJoint_def Let_def)

subsection \<open>The distance joint\<close>


















lemma sqrt_values: "sqrt 10000 = 100" "sqrt 22500 = 150" "sqrt 40000 = 200"
  using real_sqrt_abs2 [of 100] real_sqrt_abs2 [of 150] real_sqrt_abs2 [of 200] by simp_all

text \<open>
  With stiffness 1 the joint of the Enhanced variant moves two dynamic bodies to their
  rest length in one frame, from either side: two bodies at distance 100 joined with rest
  length 200 are recorded at distance 200 from the first frame on.
\<close>

lemma jointRun_longer_rest_length:
  "fst (simulate (jointRun 100 200) world0)
   \<and> bodyDistance (bodies (jointRun 100 200) ! 0) (bodies (jointRun 100 200) ! 1) = 100
   \<and> map (map s_position) (simulationData (fst (snd (simulate (jointRun 100 200) world0))))
       = [[(- 50, 0), (- 50, 0), (- 50, 0)], [(150, 0), (150, 0), (150, 0)]]
   \<and> bodyDistance (bodies (fst (snd (simulate (jointRun 100 200) world0))) ! 0)
                  (bodies (fst (snd (simulate (jointRun 100 200) world0))) ! 1) = 200"
  by (simp add: jointRun_def run_defs eval_nat_numeral sqrt_values bodyDistance_def distance_def)

















text \<open>The scenario of the specification: rest length 100, initial distance 150.\<close>

lemma jointRun_scenario:
  "map (map s_position) (simulationData (fst (snd (simulate (jointRun 150 100) world0))))
       = [[(25, 0), (25, 0), (25, 0)], [(125, 0), (125, 0), (125, 0)]]"
  by (simp add: jointRun_def run_defs eval_nat_numeral sqrt_values)

text \<open>
  The distance joint of the joints module divides the error by the distance twice, so its
  correction is \<open>error / distance\<close> instead of \<open>error\<close>: at a distance of a quarter of a
  pixel with rest length 1/20 the error grows from 0.2 to 0.5 in one application.
\<close>

lemma applyDistanceJoint_modular_error_grows:
  "map mb_position (snd (applyDistanceJoint_modular
       \<lparr>mj_type = Distance, mj_bodyA = 0, mj_bodyB = 1, mj_damping = 1/10, mj_strength = 1,
        mj_targetDistance = 1/20, mj_lastDistance = 0\<rparr> (1/30)
       [box_modular (0, 0), box_modular (1/4, 0)]))
     = [(4/10, 0), (- 15/100, 0)]"
proof -
  have s: "sqrt (1/16) = 1/4" using real_sqrt_abs2 [of "1/4"] by simp
  show ?thesis
    by (simp add: applyDistanceJoint_modular_def box_modular_def Let_def s)
qed

subsection \<open>Determinism\<close>

text \<open>
  Every step of a frame commutes with forgetting the ids and contact logs of the bodies
  and the clock of the world.
\<close>

lemma strip_idem [simp]: "strip (strip b) = strip b" "wstrip (wstrip w) = wstrip w"
  by (simp_all add: strip_def wstrip_def)

lemma strip_contacts [simp]: "strip (b\<lparr>contacts := cs\<rparr>) = strip b"
  by (simp add: strip_def)

lemma strip_pure:
  "strip (applyGravity b g dt) = applyGravity (strip b) g dt"
  "strip (applyDamping b d) = applyDamping (strip b) d"
  "strip (updatePosition b dt) = updatePosition (strip b) dt"
  "strip (updateSleepState b dt) = updateSleepState (strip b) dt"
  "strip (groundFriction b) = groundFriction (strip b)"
  by (simp_all add: strip_def applyGravity_def applyDamping_def updatePosition_def
      updateSleepState_def groundFriction_def Let_def)

lemma strip_floorResponse:
  "strip (fst (floorResponse b gb w)) = strip (fst (floorResponse (strip b) gb (wstrip w)))"
  "wstrip (snd (floorResponse b gb w)) = wstrip (snd (floorResponse (strip b) gb (wstrip w)))"
  by (simp_all add: floorResponse_def Let_def split_beta Date_now_def Math_random_def
      strip_def wstrip_def)


lemma strip_fields:
  "btype (strip b) = btype b" "position (strip b) = position b" "velocity (strip b) = velocity b"
  "height (strip b) = height b" "width (strip b) = width b" "mass (strip b) = mass b"
  "restitution (strip b) = restitution b" "rotation (strip b) = rotation b"
  "isSleeping (strip b) = isSleeping b"
  "collisionGroup (strip b) = collisionGroup b" "collidesWith (strip b) = collidesWith b"
  "contactCount (strip b) = contactCount b"
  by (simp_all add: strip_def)

lemma strip_position [simp]:
  "strip (b\<lparr>position := p\<rparr>) = (strip b)\<lparr>position := p\<rparr>"
  "strip (b\<lparr>isGrounded := g\<rparr>) = (strip b)\<lparr>isGrounded := g\<rparr>"
  "strip (b\<lparr>velocity := v\<rparr>) = (strip b)\<lparr>velocity := v\<rparr>"
  by (simp_all add: strip_def)

lemma strip_checkFloorCollision:
  "strip (fst (checkFloorCollision b fy gb st w))
     = strip (fst (checkFloorCollision (strip b) fy gb st (wstrip w)))"
  "wstrip (snd (checkFloorCollision b fy gb st w))
     = wstrip (snd (checkFloorCollision (strip b) fy gb st (wstrip w)))"
proof -
  let ?b1 = "b\<lparr>position := (fst (position b), fy - height b / 2)\<rparr>"
  have s1: "strip ?b1 = (strip b)\<lparr>position := (fst (position b), fy - height b / 2)\<rparr>"
    by simp
  have f: "strip (groundFriction (fst (floorResponse ?b1 gb w)))
             = strip (groundFriction (fst (floorResponse (strip ?b1) gb (wstrip w))))"
    using strip_floorResponse(1) [of ?b1 gb w] by (simp add: strip_pure)
  show "strip (fst (checkFloorCollision b fy gb st w))
     = strip (fst (checkFloorCollision (strip b) fy gb st (wstrip w)))"
    using f
    by (simp add: checkFloorCollision_def Let_def split_beta strip_fields s1 strip_pure)
  show "wstrip (snd (checkFloorCollision b fy gb st w))
     = wstrip (snd (checkFloorCollision (strip b) fy gb st (wstrip w)))"
    using strip_floorResponse(2) [of ?b1 gb w]
    by (simp add: checkFloorCollision_def Let_def split_beta strip_fields s1)
qed

lemma strip_bodyStep:
  "strip (fst (bodyStep st dt b w)) = strip (fst (bodyStep st dt (strip b) (wstrip w)))"
  "wstrip (snd (bodyStep st dt b w)) = wstrip (snd (bodyStep st dt (strip b) (wstrip w)))"
proof -
  let ?b3 = "updatePosition (applyDamping (applyGravity (b\<lparr>contacts := []\<rparr>) (gravityVector st) dt)
               (damping st)) dt"
  let ?c3 = "updatePosition (applyDamping (applyGravity ((strip b)\<lparr>contacts := []\<rparr>) (gravityVector st) dt)
               (damping st)) dt"
  have e3: "strip ?c3 = strip ?b3" by (simp add: strip_pure)
  have c: "strip (fst (checkFloorCollision ?b3 (floorY st) (bounce st) st w))
         = strip (fst (checkFloorCollision ?c3 (floorY st) (bounce st) st (wstrip w)))"
    using strip_checkFloorCollision(1) [of ?b3 "floorY st" "bounce st" st w]
      strip_checkFloorCollision(1) [of ?c3 "floorY st" "bounce st" st "wstrip w"]
    by (simp add: e3)
  show "strip (fst (bodyStep st dt b w)) = strip (fst (bodyStep st dt (strip b) (wstrip w)))"
    using c by (simp add: bodyStep_fst Let_def strip_pure)
  show "wstrip (snd (bodyStep st dt b w)) = wstrip (snd (bodyStep st dt (strip b) (wstrip w)))"
    using strip_checkFloorCollision(2) [of ?b3 "floorY st" "bounce st" st w]
      strip_checkFloorCollision(2) [of ?c3 "floorY st" "bounce st" st "wstrip w"]
    by (simp add: bodyStep_snd e3)
qed

text \<open>Two bodies, two worlds, that differ in ids, contact logs and clock only.\<close>

lemma bodyStep_cong:
  assumes "strip b1 = strip b2" "wstrip w1 = wstrip w2"
  shows "strip (fst (bodyStep st dt b1 w1)) = strip (fst (bodyStep st dt b2 w2))"
    and "wstrip (snd (bodyStep st dt b1 w1)) = wstrip (snd (bodyStep st dt b2 w2))"
  using strip_bodyStep [of st dt b1 w1] strip_bodyStep [of st dt b2 w2] assms by simp_all

lemma updateBodies_cong:
  assumes "map strip bs1 = map strip bs2" "wstrip w1 = wstrip w2"
  shows "map strip (fst (updateBodies st dt bs1 w1)) = map strip (fst (updateBodies st dt bs2 w2))
       \<and> wstrip (snd (updateBodies st dt bs1 w1)) = wstrip (snd (updateBodies st dt bs2 w2))"
  using assms
proof (induction bs1 arbitrary: bs2 w1 w2)
  case Nil
  then show ?case by simp
next
  case (Cons b1 bs1)
  then obtain b2 bs2' where bs2: "bs2 = b2 # bs2'" by (cases bs2) auto
  have h: "strip b1 = strip b2" "map strip bs1 = map strip bs2'"
    using Cons.prems(1) bs2 by simp_all
  have s: "strip (fst (bodyStep st dt b1 w1)) = strip (fst (bodyStep st dt b2 w2))"
    "wstrip (snd (bodyStep st dt b1 w1)) = wstrip (snd (bodyStep st dt b2 w2))"
    using bodyStep_cong [OF h(1) Cons.prems(2)] by simp_all
  from Cons.IH [OF h(2) s(2)] s(1) show ?case
    by (simp add: bs2 split_beta)
qed


subsection \<open>Collisions\<close>

lemma strip_blocks:
  "fst (separateBodies (strip a) (strip b) dx dy ox oy) = strip (fst (separateBodies a b dx dy ox oy))"
  "snd (separateBodies (strip a) (strip b) dx dy ox oy) = strip (snd (separateBodies a b dx dy ox oy))"
  "collisionImpulse (strip a) (strip b) n v = collisionImpulse a b n v"
  "fst (applyImpulse (strip a) (strip b) i) = strip (fst (applyImpulse a b i))"
  "snd (applyImpulse (strip a) (strip b) i) = strip (snd (applyImpulse a b i))"
  by (simp_all add: separateBodies_def collisionImpulse_def applyImpulse_def strip_def Let_def)

lemma strip_recordContacts:
  "strip (fst (recordContacts a b i w)) = (strip a)\<lparr>contactCount := Suc (contactCount a)\<rparr>"
  "strip (fst (snd (recordContacts a b i w))) = (strip b)\<lparr>contactCount := Suc (contactCount b)\<rparr>"
  "wstrip (snd (snd (recordContacts a b i w))) = wstrip w"
  by (simp_all add: recordContacts_def Let_def split_beta Date_now_def strip_def wstrip_def)

lemma strip_resolveCollision:
  "strip (fst (resolveCollision a b st w))
     = strip (fst (resolveCollision (strip a) (strip b) st (wstrip w)))"
  "strip (fst (snd (resolveCollision a b st w)))
     = strip (fst (snd (resolveCollision (strip a) (strip b) st (wstrip w))))"
  "wstrip (snd (snd (resolveCollision a b st w)))
     = wstrip (snd (snd (resolveCollision (strip a) (strip b) st (wstrip w))))"
  by (simp_all add: resolveCollision_def Let_def split_beta strip_fields strip_blocks
      strip_recordContacts)

lemma strip_checkBodyCollision:
  "strip (fst (fst (checkBodyCollision a b st w)))
     = strip (fst (fst (checkBodyCollision (strip a) (strip b) st (wstrip w))))"
  "strip (fst (snd (fst (checkBodyCollision a b st w))))
     = strip (fst (snd (fst (checkBodyCollision (strip a) (strip b) st (wstrip w)))))"
  "wstrip (snd (snd (fst (checkBodyCollision a b st w))))
     = wstrip (snd (snd (fst (checkBodyCollision (strip a) (strip b) st (wstrip w)))))"
  using strip_resolveCollision [of a b st w]
  by (simp_all add: checkBodyCollision_def boxesOverlap_def strip_fields Let_def)

lemma collidePair_cong:
  assumes "map strip (fst s1) = map strip (fst s2)" "wstrip (snd s1) = wstrip (snd s2)"
    and "fst ij < length (fst s1)" "snd ij < length (fst s1)"
  shows "map strip (fst (collidePair st ij s1)) = map strip (fst (collidePair st ij s2))
       \<and> wstrip (snd (collidePair st ij s1)) = wstrip (snd (collidePair st ij s2))"
proof -
  have len: "length (fst s2) = length (fst s1)" using assms(1) by (metis length_map)
  have a: "strip (fst s1 ! fst ij) = strip (fst s2 ! fst ij)"
    using assms(1,3) len by (metis nth_map)
  have b: "strip (fst s1 ! snd ij) = strip (fst s2 ! snd ij)"
    using assms(1,4) len by (metis nth_map)
  show ?thesis
    using strip_checkBodyCollision [of "fst s1 ! fst ij" "fst s1 ! snd ij" st "snd s1"]
      strip_checkBodyCollision [of "fst s2 ! fst ij" "fst s2 ! snd ij" st "snd s2"]
      a b assms(1,2)
    by (simp add: collidePair_def Let_def split_beta map_update)
qed

lemma collidePair_length: "length (fst (collidePair st ij s)) = length (fst s)"
  by (simp add: collidePair_def Let_def split_beta)

lemma collidePairs_cong:
  assumes "map strip (fst s1) = map strip (fst s2)" "wstrip (snd s1) = wstrip (snd s2)"
    and "\<forall>ij \<in> set ps. fst ij < length (fst s1) \<and> snd ij < length (fst s1)"
  shows "map strip (fst (fold (collidePair st) ps s1)) = map strip (fst (fold (collidePair st) ps s2))
       \<and> wstrip (snd (fold (collidePair st) ps s1)) = wstrip (snd (fold (collidePair st) ps s2))"
  using assms
proof (induction ps arbitrary: s1 s2)
  case Nil
  then show ?case by simp
next
  case (Cons ij ps)
  have step: "map strip (fst (collidePair st ij s1)) = map strip (fst (collidePair st ij s2))"
    "wstrip (snd (collidePair st ij s1)) = wstrip (snd (collidePair st ij s2))"
    using collidePair_cong [OF Cons.prems(1,2), of ij st] Cons.prems(3) by simp_all
  have "\<forall>p \<in> set ps. fst p < length (fst (collidePair st ij s1))
                     \<and> snd p < length (fst (collidePair st ij s1))"
    using Cons.prems(3) by (simp add: collidePair_length)
  then show ?case using Cons.IH [OF step] by simp
qed

lemma collisionPairs_bound:
  "ij \<in> set (collisionPairs n) \<Longrightarrow> fst ij < n \<and> snd ij < n"
  by (auto simp: collisionPairs_def)

lemma collideAll_cong:
  assumes "map strip (fst s1) = map strip (fst s2)" "wstrip (snd s1) = wstrip (snd s2)"
  shows "map strip (fst (collideAll st s1)) = map strip (fst (collideAll st s2))
       \<and> wstrip (snd (collideAll st s1)) = wstrip (snd (collideAll st s2))"
proof -
  have len: "length (fst s2) = length (fst s1)" using assms(1) by (metis length_map)
  show ?thesis
    unfolding collideAll_def len
    by (rule collidePairs_cong [OF assms]) (simp add: collisionPairs_bound)
qed


subsection \<open>Joints\<close>

lemma strip_joints:
  "distanceJoint j (strip a) (strip b)
     = (strip (fst (distanceJoint j a b)), strip (snd (distanceJoint j a b)))"
  "springJoint j (strip a) (strip b)
     = (strip (fst (springJoint j a b)), strip (snd (springJoint j a b)))"
  "pivotJoint j (strip a) (strip b)
     = (strip (fst (pivotJoint j a b)), strip (snd (pivotJoint j a b)))"
  "weldJoint j (strip a) (strip b)
     = (strip (fst (weldJoint j a b)), strip (snd (weldJoint j a b)))"
  by (simp_all add: distanceJoint_def springJoint_def pivotJoint_def weldJoint_def
      strip_def Let_def)

lemma strip_onBodies:
  assumes "\<And>a b. upd (strip a) (strip b) = (strip (fst (upd a b)), strip (snd (upd a b)))"
  shows "onBodies j (map strip bs) upd = map_sum id (map strip) (onBodies j bs upd)"
  by (simp add: onBodies_def deref_def assms split_beta map_update
      split: option.splits)

lemma strip_updateJoint:
  "updateJoint j dt (map strip bs) = map_sum id (map strip) (updateJoint j dt bs)"
  by (simp add: updateJoint_def updateDistanceJoint_def updateSpringJoint_def
      updatePivotJoint_def updateWeldJoint_def strip_onBodies strip_joints
      split: joint_type.splits)

lemma strip_updateJoints:
  "updateJoints js dt (map strip bs)
     = (fst (updateJoints js dt bs), map strip (snd (updateJoints js dt bs)))"
proof (induction js arbitrary: bs)
  case Nil
  show ?case by simp
next
  case (Cons j js)
  show ?case
    by (cases "updateJoint j dt bs") (simp_all add: strip_updateJoint Cons.IH)
qed

lemma updateJoints_cong:
  assumes "map strip bs1 = map strip bs2"
  shows "fst (updateJoints js dt bs1) = fst (updateJoints js dt bs2)"
    and "map strip (snd (updateJoints js dt bs1)) = map strip (snd (updateJoints js dt bs2))"
  using strip_updateJoints [of js dt bs1] strip_updateJoints [of js dt bs2] assms
  by simp_all


subsection \<open>Frames and runs\<close>

lemma sampleOf_strip: "sampleOf (strip b) fr dt = sampleOf b fr dt"
  by (simp add: sampleOf_def strip_def)

lemma samples_strip:
  "map2 (\<lambda>tr b. tr @ [sampleOf b fr dt]) d (map strip bs)
     = map2 (\<lambda>tr b. tr @ [sampleOf b fr dt]) d bs"
  by (simp add: zip_map2 split_beta sampleOf_strip)

lemma samples_cong:
  assumes "map strip bs1 = map strip bs2"
  shows "map2 (\<lambda>tr b. tr @ [sampleOf b fr dt]) d bs1
       = map2 (\<lambda>tr b. tr @ [sampleOf b fr dt]) d bs2"
  using samples_strip [of fr dt d bs1] samples_strip [of fr dt d bs2] assms by simp

lemma frameStep_stages:
  "fst (frameStep dt fr s) = fst (updateJoints (joints (fst s)) dt (fst (afterCollisions dt s)))"
  "bodies (fst (snd (frameStep dt fr s)))
     = snd (updateJoints (joints (fst s)) dt (fst (afterCollisions dt s)))"
  "snd (snd (frameStep dt fr s)) = snd (afterCollisions dt s)"
  by (simp_all add: frameStep_def afterCollisions_def Let_def split_beta split: option.splits)

lemma eview_eq:
  "(eview e1 = eview e2) =
     (config e1 = config e2 \<and> map strip (bodies e1) = map strip (bodies e2)
      \<and> joints e1 = joints e2 \<and> simulationData e1 = simulationData e2
      \<and> isSimulating e1 = isSimulating e2)"
  by (simp add: eview_def)

lemma afterCollisions_cong:
  assumes "eview (fst s1) = eview (fst s2)" "wstrip (snd s1) = wstrip (snd s2)"
  shows "map strip (fst (afterCollisions dt s1)) = map strip (fst (afterCollisions dt s2))
       \<and> wstrip (snd (afterCollisions dt s1)) = wstrip (snd (afterCollisions dt s2))"
proof -
  have c: "config (fst s1) = config (fst s2)"
    and b: "map strip (bodies (fst s1)) = map strip (bodies (fst s2))"
    using assms(1) by (simp_all add: eview_eq)
  note u = updateBodies_cong [OF b assms(2), of "config (fst s2)" dt]
  show ?thesis
    unfolding afterCollisions_def c
    using u collideAll_cong [OF conjunct1 [OF u] conjunct2 [OF u], of "config (fst s2)"]
    by simp
qed

lemma frameStep_cong:
  assumes "eview (fst s1) = eview (fst s2)" "wstrip (snd s1) = wstrip (snd s2)"
  shows "fst (frameStep dt fr s1) = fst (frameStep dt fr s2)
       \<and> eview (fst (snd (frameStep dt fr s1))) = eview (fst (snd (frameStep dt fr s2)))
       \<and> wstrip (snd (snd (frameStep dt fr s1))) = wstrip (snd (snd (frameStep dt fr s2)))"
proof -
  have j: "joints (fst s1) = joints (fst s2)"
    and d: "simulationData (fst s1) = simulationData (fst s2)"
    and rest: "config (fst s1) = config (fst s2)" "isSimulating (fst s1) = isSimulating (fst s2)"
    using assms(1) by (simp_all add: eview_eq)
  note a = afterCollisions_cong [OF assms, of dt]
  note u = updateJoints_cong [OF conjunct1 [OF a], of "joints (fst s2)" dt]
  have e: "fst (frameStep dt fr s1) = fst (frameStep dt fr s2)"
    by (simp add: frameStep_stages j u(1))
  have bs: "map strip (bodies (fst (snd (frameStep dt fr s1))))
          = map strip (bodies (fst (snd (frameStep dt fr s2))))"
    by (simp add: frameStep_stages j u(2))
  have sd: "simulationData (fst (snd (frameStep dt fr s1)))
          = simulationData (fst (snd (frameStep dt fr s2)))"
    by (simp add: frameStep_data e d samples_cong [OF bs] split: option.splits)
  have w: "wstrip (snd (snd (frameStep dt fr s1))) = wstrip (snd (snd (frameStep dt fr s2)))"
    by (simp add: frameStep_stages a)
  show ?thesis
    by (simp add: e w eview_eq frameStep_parts(1-3) j rest bs sd)
qed

lemma runFrames_cong:
  assumes "eview (fst s1) = eview (fst s2)" "wstrip (snd s1) = wstrip (snd s2)"
  shows "fst (runFrames dt fr n s1) = fst (runFrames dt fr n s2)
       \<and> eview (fst (snd (runFrames dt fr n s1))) = eview (fst (snd (runFrames dt fr n s2)))
       \<and> wstrip (snd (snd (runFrames dt fr n s1))) = wstrip (snd (snd (runFrames dt fr n s2)))"
  using assms
proof (induction n arbitrary: fr s1 s2)
  case 0
  then show ?case by simp
next
  case (Suc n)
  note f = frameStep_cong [OF Suc.prems, of dt fr]
  obtain x1 t1 where r1: "frameStep dt fr s1 = (x1, t1)" by (cases "frameStep dt fr s1")
  obtain x2 t2 where r2: "frameStep dt fr s2 = (x2, t2)" by (cases "frameStep dt fr s2")
  have x: "x1 = x2" and t: "eview (fst t1) = eview (fst t2)" "wstrip (snd t1) = wstrip (snd t2)"
    using f by (simp_all add: r1 r2)
  show ?case
  proof (cases x2)
    case None
    then show ?thesis using Suc.IH [OF t, of "Suc fr"] by (simp add: r1 r2 x)
  next
    case (Some y)
    then show ?thesis using t by (simp add: r1 r2 x)
  qed
qed

lemma wstrip_eq:
  "(wstrip w1 = wstrip w2) = (randoms w1 = randoms w2 \<and> rnd_used w1 = rnd_used w2)"
  by (cases w1; cases w2) (simp add: wstrip_def)

lemma simulate_cong:
  assumes "config e1 = config e2" "joints e1 = joints e2"
    and "map strip (bodies e1) = map strip (bodies e2)" "bodies e1 \<noteq> []"
    and "randoms w1 = randoms w2" "rnd_used w1 = rnd_used w2"
  shows "fst (simulate e1 w1) = fst (simulate e2 w2)"
    and "simulationData (fst (snd (simulate e1 w1))) = simulationData (fst (snd (simulate e2 w2)))"
    and "map strip (bodies (fst (snd (simulate e1 w1)))) = map strip (bodies (fst (snd (simulate e2 w2))))"
proof -
  have len: "length (bodies e1) = length (bodies e2)" using assms(3) by (metis length_map)
  then have ne: "bodies e2 \<noteq> []" using assms(4) by (metis length_0_conv)
  let ?s1 = "(e1\<lparr>isSimulating := True, simulationData := replicate (length (bodies e1)) [],
                  contactData := replicate (length (bodies e1)) []\<rparr>, w1)"
  let ?s2 = "(e2\<lparr>isSimulating := True, simulationData := replicate (length (bodies e2)) [],
                  contactData := replicate (length (bodies e2)) []\<rparr>, w2)"
  have v: "eview (fst ?s1) = eview (fst ?s2)" by (simp add: eview_eq assms len)
  have w: "wstrip (snd ?s1) = wstrip (snd ?s2)" by (simp add: wstrip_eq assms)
  note r = runFrames_cong [OF v w, of "deltaTimeOf (config e2)" 0 "totalFrames (config e2)"]
  show "fst (simulate e1 w1) = fst (simulate e2 w2)"
    using r by (simp add: simulate_def Let_def split_beta assms(1,4) ne)
  show "simulationData (fst (snd (simulate e1 w1))) = simulationData (fst (snd (simulate e2 w2)))"
    using r by (simp add: simulate_def Let_def split_beta assms(1,4) ne eview_eq)
  show "map strip (bodies (fst (snd (simulate e1 w1)))) = map strip (bodies (fst (snd (simulate e2 w2))))"
    using r by (simp add: simulate_def Let_def split_beta assms(1,4) ne eview_eq)
qed

text \<open>
  C9. For a fixed random seed, with the pseudo-random stream of the impact jitter given
  as an input, two simulation runs with identical body, joint and settings inputs produce
  identical trajectory buffers. Here the two runs start from engines with the same
  settings, the same joints and the same bodies, where ids and contact logs of the bodies
  may differ, and from worlds with the same random stream read up to the same place,
  where the clocks may differ: both runs return the same boolean and leave the same
  trajectory buffer. The numbers are real numbers.
\<close>

theorem trajectories_deterministic:
  assumes "config e1 = config e2" and "joints e1 = joints e2"
    and "map strip (bodies e1) = map strip (bodies e2)" and "bodies e1 \<noteq> []"
    and "randoms w1 = randoms w2" and "rnd_used w1 = rnd_used w2"
  shows "simulationData (fst (snd (simulate e1 w1))) = simulationData (fst (snd (simulate e2 w2)))
       \<and> fst (simulate e1 w1) = fst (simulate e2 w2)"
  using simulate_cong [OF assms] by simp

theorem trajectories_deterministic_witness:
  "simulationData (fst (snd (simulate pulledBelow' world1)))
     = simulationData (fst (snd (simulate pulledBelow world0)))
   \<and> fst (simulate pulledBelow' world1) = fst (simulate pulledBelow world0)
   \<and> map bid (bodies pulledBelow') = [17, 42] \<and> map bid (bodies pulledBelow) = [0, 0]
   \<and> clock world1 0 = 1000 \<and> clock world0 0 = 0"
  using trajectories_deterministic [where ?e1.0 = pulledBelow' and ?e2.0 = pulledBelow
      and ?w1.0 = world1 and ?w2.0 = world0]
  by (simp add: pulledBelow'_def pulledBelow_def world1_def world0_def strip_def box_def)

subsection \<open>Gravity on a sleeping body\<close>

lemma applyGravity_adds:
  assumes "btype b = Dynamic" "\<not> (isGrounded b \<and> snd g > 0)"
  shows "acceleration (applyGravity b g dt)
           = (fst (acceleration b) + fst g * gravityScale b,
              snd (acceleration b) + snd g * gravityScale b)"
  using assms by (auto simp: applyGravity_def)

lemma bodyStep_sleeping_acceleration:
  assumes "btype b = Dynamic" "isSleeping b" "\<not> (isGrounded b \<and> snd (gravityVector st) > 0)"
  shows "acceleration (fst (bodyStep st dt b w))
           = (fst (acceleration b) + fst (gravityVector st) * gravityScale b,
              snd (acceleration b) + snd (gravityVector st) * gravityScale b)"
proof -
  let ?b2 = "applyDamping (applyGravity (b\<lparr>contacts := []\<rparr>) (gravityVector st) dt) (damping st)"
  have "isSleeping ?b2" using assms(2) by (simp add: applyDamping_keeps applyGravity_keeps)
  then have up: "updatePosition ?b2 dt = ?b2" by (rule updatePosition_sleeping)
  have "acceleration ?b2 = acceleration (applyGravity (b\<lparr>contacts := []\<rparr>) (gravityVector st) dt)"
    by (simp add: applyDamping_keeps)
  also have "\<dots> = (fst (acceleration b) + fst (gravityVector st) * gravityScale b,
              snd (acceleration b) + snd (gravityVector st) * gravityScale b)"
    using assms(1,3) by (simp add: applyGravity_adds)
  finally show ?thesis
    by (simp add: bodyStep_fst Let_def up checkFloorCollision_keeps updateSleepState_keeps)
qed

lemma bodyFrames_sleeping:
  assumes "btype b = Dynamic" "isSleeping b" "velocity b = (0, 0)" "angularVelocity b = 0"
    "\<not> (isGrounded b \<and> snd (gravityVector st) > 0)"
  shows "isSleeping (fst (bodyFrames st dt n b w))
       \<and> acceleration (fst (bodyFrames st dt n b w))
           = (fst (acceleration b) + real n * (fst (gravityVector st) * gravityScale b),
              snd (acceleration b) + real n * (snd (gravityVector st) * gravityScale b))"
  using assms
proof (induction n arbitrary: b w)
  case 0
  then show ?case by simp
next
  case (Suc n)
  let ?b' = "fst (bodyStep st dt b w)"
  have rest: "isSleeping ?b'" "velocity ?b' = (0, 0)" "angularVelocity ?b' = 0"
    using bodyStep_sleeping_rest [OF Suc.prems(2,3,4), of st dt w] by simp_all
  have gr: "\<not> (isGrounded ?b' \<and> snd (gravityVector st) > 0)"
    using bodyStep_sleeping_rest(5) [OF Suc.prems(2,3,4), of st dt w] Suc.prems(5) by blast
  have dyn: "btype ?b' = Dynamic" "gravityScale ?b' = gravityScale b"
    using Suc.prems(1) by (simp_all add: bodyStep_fields)
  have acc: "acceleration ?b' = (fst (acceleration b) + fst (gravityVector st) * gravityScale b,
              snd (acceleration b) + snd (gravityVector st) * gravityScale b)"
    using Suc.prems(1,2,5) by (rule bodyStep_sleeping_acceleration)
  have "bodyFrames st dt (Suc n) b w = bodyFrames st dt n ?b' (snd (bodyStep st dt b w))"
    by (simp add: split_beta)
  then show ?case
    using Suc.IH [OF dyn(1) rest gr, of "snd (bodyStep st dt b w)"]
    by (simp add: acc dyn(2) algebra_simps)
qed

lemma awake_integrates:
  assumes "btype b = Dynamic" "\<not> isSleeping b" "\<not> (isGrounded b \<and> snd g > 0)"
  shows "velocity (updatePosition (applyDamping (applyGravity b g dt) d) dt)
           = (fst (velocity b) * (d * (1 - linearDamping b))
                + (fst (acceleration b) + fst g * gravityScale b) * dt,
              snd (velocity b) * (d * (1 - linearDamping b))
                + (snd (acceleration b) + snd g * gravityScale b) * dt)
       \<and> acceleration (updatePosition (applyDamping (applyGravity b g dt) d) dt) = (0, 0)"
proof -
  have a: "acceleration (applyGravity b g dt)
           = (fst (acceleration b) + fst g * gravityScale b,
              snd (acceleration b) + snd g * gravityScale b)"
    using assms(1,3) by (rule applyGravity_adds)
  have k: "btype (applyGravity b g dt) = Dynamic" "isSleeping (applyGravity b g dt) = isSleeping b"
    "velocity (applyGravity b g dt) = velocity b"
    "linearDamping (applyGravity b g dt) = linearDamping b"
    using assms(1) by (simp_all add: applyGravity_def)
  show ?thesis
    using assms(2) a k by (simp add: updatePosition_def applyDamping_def Let_def)
qed

text \<open>
  C10, as the claim states it, fails: \<^verbatim>\<open>applyGravity\<close> returns early for a grounded body
  under downward gravity, asleep or not. The body of the run \<open>dropOne\<close> is asleep on the
  floor after two frames; the next pass of the body loop adds nothing to its acceleration,
  while the scaled gravity is \<open>(0, 980)\<close>.
\<close>

theorem grounded_sleeper_gets_no_gravity:
  "btype (bodies (fst (snd (simulate dropOne world0))) ! 0) = Dynamic
   \<and> isSleeping (bodies (fst (snd (simulate dropOne world0))) ! 0)
   \<and> gravityScale (bodies (fst (snd (simulate dropOne world0))) ! 0) = 1
   \<and> gravityVector (config dropOne) = (0, 980)
   \<and> acceleration (bodies (fst (snd (simulate dropOne world0))) ! 0) = (0, 0)
   \<and> acceleration (fst (bodyStep (config dropOne) (deltaTimeOf (config dropOne))
                           (bodies (fst (snd (simulate dropOne world0))) ! 0)
                           (snd (snd (simulate dropOne world0))))) = (0, 0)"
  by (simp add: dropOne_run)
     (simp add: dropOne_def bodyStep_def box_def DEFAULT_SETTINGS_def
        deltaTimeOf_def applyGravity_def applyDamping_def updatePosition_def
        checkFloorCollision_def groundFriction_def updateSleepState_def tolerance_def Let_def)

text \<open>
  C10, amended. For a dynamic body that is asleep, and that is not grounded under downward
  gravity, each pass of the body loop adds the scaled gravity vector to the acceleration
  and nothing clears it: after \<open>n\<close> frames at rest the body is still asleep and its
  acceleration has grown by \<open>n\<close> times the scaled gravity. Once the body is awake again,
  the integration step adds the whole accumulated acceleration, times one timestep, to the
  velocity.
\<close>

theorem sleeping_gravity_accumulates:
  assumes "btype b = Dynamic" and "isSleeping b"
    and "velocity b = (0, 0)" and "angularVelocity b = 0"
    and "\<not> (isGrounded b \<and> snd (gravityVector st) > 0)"
  shows "acceleration (fst (bodyStep st dt b w))
           = (fst (acceleration b) + fst (gravityVector st) * gravityScale b,
              snd (acceleration b) + snd (gravityVector st) * gravityScale b)
       \<and> isSleeping (fst (bodyFrames st dt n b w))
       \<and> acceleration (fst (bodyFrames st dt n b w))
           = (fst (acceleration b) + real n * (fst (gravityVector st) * gravityScale b),
              snd (acceleration b) + real n * (snd (gravityVector st) * gravityScale b))
       \<and> velocity (updatePosition (applyDamping (applyGravity (b\<lparr>isSleeping := False, acceleration := a, velocity := v\<rparr>)
                     (gravityVector st) dt) (damping st)) dt)
           = (fst v * (damping st * (1 - linearDamping b))
                + (fst a + fst (gravityVector st) * gravityScale b) * dt,
              snd v * (damping st * (1 - linearDamping b))
                + (snd a + snd (gravityVector st) * gravityScale b) * dt)"
proof -
  have "btype (b\<lparr>isSleeping := False, acceleration := a, velocity := v\<rparr>) = Dynamic"
    "\<not> isSleeping (b\<lparr>isSleeping := False, acceleration := a, velocity := v\<rparr>)"
    "\<not> (isGrounded (b\<lparr>isSleeping := False, acceleration := a, velocity := v\<rparr>) \<and> snd (gravityVector st) > 0)"
    using assms(1,5) by simp_all
  from awake_integrates [OF this, of dt "damping st"]
  show ?thesis
    using bodyStep_sleeping_acceleration [OF assms(1,2,5), of dt w]
      bodyFrames_sleeping [OF assms, of dt n w]
    by simp
qed


theorem sleeping_gravity_witness:
  "btype asleepInAir = Dynamic \<and> isSleeping asleepInAir \<and> velocity asleepInAir = (0, 0)
   \<and> angularVelocity asleepInAir = 0
   \<and> \<not> (isGrounded asleepInAir \<and> snd (gravityVector DEFAULT_SETTINGS) > 0)
   \<and> acceleration (fst (bodyStep DEFAULT_SETTINGS (1/30) asleepInAir world0)) = (0, 980)
   \<and> isSleeping (fst (bodyFrames DEFAULT_SETTINGS (1/30) 30 asleepInAir world0))
   \<and> acceleration (fst (bodyFrames DEFAULT_SETTINGS (1/30) 30 asleepInAir world0)) = (0, 29400)
   \<and> velocity (updatePosition (applyDamping (applyGravity
         (asleepInAir\<lparr>isSleeping := False, acceleration := (0, 29400), velocity := (0, 0)\<rparr>)
         (gravityVector DEFAULT_SETTINGS) (1/30)) (damping DEFAULT_SETTINGS)) (1/30))
       = (0, 30380 / 30)"
  using sleeping_gravity_accumulates
    [where b = asleepInAir and st = DEFAULT_SETTINGS and dt = "1/30" and w = world0 and n = 30
       and a = "(0, 29400)" and v = "(0, 0)"]
  by (simp add: asleepInAir_def box_def DEFAULT_SETTINGS_def)

end
